theory Spec2Isabelle
  imports Main "HOL-Library.AList"
begin

section \<open>Values\<close>

text \<open>
  The definition file is decoded into Go values of type \<^verbatim>\<open>any\<close>; templates and the
  helper functions of the function map inspect them by type assertion. The values that a
  decoder or the message pipeline produces are modelled by one sum type: the nil interface,
  strings, integers, booleans, string slices, slices and string-keyed maps. A map is an
  association list with distinct keys, read with \<open>map_of\<close>. Slices and maps carried inside a
  value are non-nil; a parameter of the Go type \<^verbatim>\<open>map[string]any\<close>, which may be the nil
  map, is an \<open>option\<close> of an association list. Floating-point numbers are left out.
  Strings are byte strings. A Go \<^verbatim>\<open>int\<close> is an \<open>int\<close>: no arithmetic of the model can
  overflow.
\<close>

datatype gval =
    VNil
  | VStr string
  | VInt int
  | VBool bool
  | VStrs "string list"
  | VList "gval list"
  | VMap "(string \<times> gval) list"

type_synonym gmap = "(string \<times> gval) list"

section \<open>The definition model (package schema)\<close>

record Meta =
  Name :: string
  Description :: string

record ResponseDefinition =
  Status :: int
  Headers :: "(string \<times> string) list"
  Body :: string

record Route =
  Path :: string
  Method :: string
  Response :: ResponseDefinition

record OnMessageRule =
  IfExpr :: string
  Respond :: string

record OnMessage =
  Match :: string
  Conditions :: "OnMessageRule list"
  Else :: string

record FileEntry =
  Path :: string
  Content :: string

record SFTPAuth =
  Username :: string
  Password :: string
  PublicKeyPath :: string

record Session =
  Timeout :: string

record Context =
  Variables :: "gmap option"

record MockDefinition =
  Protocol :: string
  Port :: int
  Meta :: Meta
  Routes :: "Route list"
  OnMessage :: "OnMessage option"
  Files :: "FileEntry list"
  SFTPAuth :: "SFTPAuth option"
  Session :: "Session option"
  Context :: "Context option"
  Functions :: "(string \<times> string) list"
  Import :: "string list"

text \<open>
  \<^verbatim>\<open>Validate\<close> returns \<^verbatim>\<open>nil\<close> (here \<open>None\<close>) or one of six errors; the error
  values stand for the six messages of the source. A pointer field is an \<open>option\<close>.
\<close>

datatype validate_error =
    RoutesUndefined
  | OnMessageUndefined
  | FilesUndefined
  | SFTPAuthUndefined
  | SFTPAuthIncomplete
  | UnsupportedProtocol string

definition Validate :: "MockDefinition \<Rightarrow> validate_error option" where
  "Validate d =
    (if Protocol d = ''http'' then
       (if length (Routes d) = 0 then Some RoutesUndefined else None)
     else if Protocol d = ''tcp'' \<or> Protocol d = ''ws'' then
       (if OnMessage d = None then Some OnMessageUndefined else None)
     else if Protocol d = ''sftp'' then
       (if length (Files d) = 0 then Some FilesUndefined
        else case SFTPAuth d of
          None \<Rightarrow> Some SFTPAuthUndefined
        | Some a \<Rightarrow>
            if Username a = '''' \<or> Password a = '''' then Some SFTPAuthIncomplete
            else None)
     else Some (UnsupportedProtocol (Protocol d)))"

section \<open>The Go library functions the helpers call\<close>

text \<open>
  The packages \<^verbatim>\<open>strings\<close>, \<^verbatim>\<open>strconv\<close> and \<^verbatim>\<open>fmt\<close> are not part of the repository.
  Their functions are modelled on byte strings, exact for ASCII text: a byte outside the
  ASCII range is left as it is by the case mappings.
\<close>

definition newline :: char where
  "newline = CHR 0x0A"

definition lower_letters :: string where
  "lower_letters = ''abcdefghijklmnopqrstuvwxyz''"

definition upper_letters :: string where
  "upper_letters = ''ABCDEFGHIJKLMNOPQRSTUVWXYZ''"

definition upper_byte :: "char \<Rightarrow> char" where
  "upper_byte c = (case map_of (zip lower_letters upper_letters) c of Some u \<Rightarrow> u | None \<Rightarrow> c)"

definition lower_byte :: "char \<Rightarrow> char" where
  "lower_byte c = (case map_of (zip upper_letters lower_letters) c of Some l \<Rightarrow> l | None \<Rightarrow> c)"

definition strings_ToUpper :: "string \<Rightarrow> string" where
  "strings_ToUpper s = map upper_byte s"

definition strings_ToLower :: "string \<Rightarrow> string" where
  "strings_ToLower s = map lower_byte s"

definition has_prefix :: "string \<Rightarrow> string \<Rightarrow> bool" where
  "has_prefix s p = (take (length p) s = p)"

fun strings_Contains :: "string \<Rightarrow> string \<Rightarrow> bool" where
  "strings_Contains [] sub = (sub = [])"
| "strings_Contains (c # cs) sub = (has_prefix (c # cs) sub \<or> strings_Contains cs sub)"

definition is_space :: "char \<Rightarrow> bool" where
  "is_space c = (c \<in> set [CHR 0x09, CHR 0x0A, CHR 0x0B, CHR 0x0C, CHR 0x0D, CHR 0x20])"

definition strings_TrimSpace :: "string \<Rightarrow> string" where
  "strings_TrimSpace s = rev (dropWhile is_space (rev (dropWhile is_space s)))"

definition is_separator :: "char \<Rightarrow> bool" where
  "is_separator c =
     (c \<notin> set (lower_letters @ upper_letters @ ''0123456789_'') \<and> of_char c < (128 :: nat))"

fun title_from :: "char \<Rightarrow> string \<Rightarrow> string" where
  "title_from prev [] = []"
| "title_from prev (c # cs) = (if is_separator prev then upper_byte c else c) # title_from c cs"

definition strings_Title :: "string \<Rightarrow> string" where
  "strings_Title s = title_from (CHR 0x20) s"

function split_on :: "string \<Rightarrow> string \<Rightarrow> string \<Rightarrow> string list" where
  "split_on sep acc s =
     (if s = [] then [rev acc]
      else if sep \<noteq> [] \<and> has_prefix s sep then rev acc # split_on sep [] (drop (length sep) s)
      else split_on sep (hd s # acc) (tl s))"
  by pat_completeness auto
termination
  by (relation "measure (\<lambda>(sep, acc, s). length s)") auto

declare split_on.simps [simp del]

definition strings_Split :: "string \<Rightarrow> string \<Rightarrow> string list" where
  "strings_Split s sep = (if sep = [] then map (\<lambda>c. [c]) s else split_on sep [] s)"

fun strings_Join :: "string list \<Rightarrow> string \<Rightarrow> string" where
  "strings_Join [] sep = []"
| "strings_Join [x] sep = x"
| "strings_Join (x # y # ys) sep = x @ sep @ strings_Join (y # ys) sep"

function replace_from :: "string \<Rightarrow> string \<Rightarrow> string \<Rightarrow> string" where
  "replace_from old new s =
     (if s = [] then []
      else if old \<noteq> [] \<and> has_prefix s old then new @ replace_from old new (drop (length old) s)
      else hd s # replace_from old new (tl s))"
  by pat_completeness auto
termination
  by (relation "measure (\<lambda>(old, new, s). length s)") auto

declare replace_from.simps [simp del]

definition strings_ReplaceAll :: "string \<Rightarrow> string \<Rightarrow> string \<Rightarrow> string" where
  "strings_ReplaceAll s old new =
     (if old = [] then new @ concat (map (\<lambda>c. c # new) s) else replace_from old new s)"

fun nat_digits :: "nat \<Rightarrow> string" where
  "nat_digits n =
     (if n < 10 then [''0123456789'' ! n]
      else nat_digits (n div 10) @ [''0123456789'' ! (n mod 10)])"

declare nat_digits.simps [simp del]

definition strconv_Itoa :: "int \<Rightarrow> string" where
  "strconv_Itoa i = (if i < 0 then CHR ''-'' # nat_digits (nat (- i)) else nat_digits (nat i))"

text \<open>
  \<^verbatim>\<open>fmt.Sprint\<close> of one operand. The entries of a map are printed in the order of
  the association list; Go prints them sorted by key.
\<close>

fun fmt_Sprint :: "gval \<Rightarrow> string" where
  "fmt_Sprint VNil = ''<nil>''"
| "fmt_Sprint (VStr s) = s"
| "fmt_Sprint (VInt i) = strconv_Itoa i"
| "fmt_Sprint (VBool b) = (if b then ''true'' else ''false'')"
| "fmt_Sprint (VStrs xs) = ''['' @ strings_Join xs '' '' @ '']''"
| "fmt_Sprint (VList vs) = ''['' @ strings_Join (map fmt_Sprint vs) '' '' @ '']''"
| "fmt_Sprint (VMap kvs) =
     ''map['' @ strings_Join (map (\<lambda>kv. fst kv @ '':'' @ fmt_Sprint (snd kv)) kvs) '' '' @ '']''"


text \<open>
  The package \<^verbatim>\<open>regexp\<close> is a parameter: \<open>Compile\<close> is \<open>None\<close> on a pattern
  that is not a regular expression, \<open>FindStringSubmatch\<close> is the empty list (Go's nil
  slice) when nothing matches, \<open>SubexpNames\<close> lists the group names, the whole match first
  under the empty name. \<^verbatim>\<open>regexp.MatchString\<close> compiles and matches.
\<close>

record 're regexp_lib =
  Compile :: "string \<Rightarrow> 're option"
  FindStringSubmatch :: "'re \<Rightarrow> string \<Rightarrow> string list"
  SubexpNames :: "'re \<Rightarrow> string list"

datatype go_error = Error string

definition regexp_MatchString :: "'re regexp_lib \<Rightarrow> string \<Rightarrow> string \<Rightarrow> bool \<times> go_error option" where
  "regexp_MatchString lib pattern s =
     (case Compile lib pattern of
        None \<Rightarrow> (False, Some (Error ''error parsing regexp''))
      | Some re \<Rightarrow> (FindStringSubmatch lib re s \<noteq> [], None))"

section \<open>The function library of the templates (package template, functions.go)\<close>

definition safeContains :: "gval \<Rightarrow> gval \<Rightarrow> bool" where
  "safeContains s substr =
     (case (s, substr) of
        (VStr str, VStr sub) \<Rightarrow> strings_Contains str sub
      | _ \<Rightarrow> False)"

definition safeRegexMatch :: "'re regexp_lib \<Rightarrow> gval \<Rightarrow> gval \<Rightarrow> bool" where
  "safeRegexMatch lib pat val =
     (case (pat, val) of
        (VStr p, VStr v) \<Rightarrow> fst (regexp_MatchString lib p v)
      | _ \<Rightarrow> False)"

definition safeUpper :: "gval \<Rightarrow> string" where
  "safeUpper val = strings_ToUpper (fmt_Sprint val)"

definition safeLower :: "gval \<Rightarrow> string" where
  "safeLower val = (case val of VStr s \<Rightarrow> strings_ToLower s | _ \<Rightarrow> ''error: not a string'')"

definition safeTitle :: "gval \<Rightarrow> string" where
  "safeTitle val = (case val of VStr s \<Rightarrow> strings_Title s | _ \<Rightarrow> ''error: not a string'')"

definition safeTrim :: "gval \<Rightarrow> string" where
  "safeTrim val = (case val of VStr s \<Rightarrow> strings_TrimSpace s | _ \<Rightarrow> ''error: not a string'')"

definition safeSplit :: "gval \<Rightarrow> gval \<Rightarrow> string list" where
  "safeSplit str sep =
     (case (str, sep) of
        (VStr s, VStr sepStr) \<Rightarrow> strings_Split s sepStr
      | _ \<Rightarrow> [])"

definition safeJoin :: "gval \<Rightarrow> string \<Rightarrow> string" where
  "safeJoin arr sep =
     (case arr of VStrs list \<Rightarrow> strings_Join list sep | _ \<Rightarrow> ''error: expected []string'')"

definition safeReplace :: "gval \<Rightarrow> gval \<Rightarrow> gval \<Rightarrow> string" where
  "safeReplace s old new =
     (case (s, old, new) of
        (VStr str, VStr oldStr, VStr newStr) \<Rightarrow> strings_ReplaceAll str oldStr newStr
      | _ \<Rightarrow> ''error: invalid args'')"

definition safeLen :: "gval \<Rightarrow> int" where
  "safeLen v =
     (case v of
        VStr s \<Rightarrow> int (length s)
      | VStrs xs \<Rightarrow> int (length xs)
      | VList vs \<Rightarrow> int (length vs)
      | VMap kvs \<Rightarrow> int (length kvs)
      | _ \<Rightarrow> 0)"

text \<open>\<^verbatim>\<open>reflect.Value.IsZero\<close> on the values of the model: the zero integer and \<open>false\<close>.\<close>

definition is_zero :: "gval \<Rightarrow> bool" where
  "is_zero v = (v = VNil \<or> v = VStr [] \<or> v = VInt 0 \<or> v = VBool False)"

definition safeDefault :: "gval \<Rightarrow> gval \<Rightarrow> gval" where
  "safeDefault val defaultValue =
     (if val = VNil then defaultValue
      else if val = VStr [] then defaultValue
      else if is_zero val then defaultValue
      else val)"

section \<open>The template context (package template, context.go)\<close>

definition or_empty :: "gmap option \<Rightarrow> gmap" where
  "or_empty m = (case m of None \<Rightarrow> [] | Some kvs \<Rightarrow> kvs)"

definition MergeContext :: "gmap option \<Rightarrow> gmap option \<Rightarrow> gmap option \<Rightarrow> gmap" where
  "MergeContext input session global =
     [(''input'', VMap (or_empty input)),
      (''session'', VMap (or_empty session)),
      (''context'', VMap (or_empty global))]"

section \<open>The extension registry (package extensions)\<close>

record Extension =
  Name :: string
  Source :: string
  Content :: string

type_synonym Registry = "(string \<times> Extension) list"

definition NewRegistry :: Registry where
  "NewRegistry = []"

definition Register :: "string \<Rightarrow> string \<Rightarrow> string \<Rightarrow> Registry \<Rightarrow> Registry" where
  "Register name content source r =
     AList.update name \<lparr>Name = name, Source = source, Content = content\<rparr> r"

definition Get :: "Registry \<Rightarrow> string \<Rightarrow> Extension option" where
  "Get r name = map_of r name"

text \<open>
  \<^verbatim>\<open>LoadKurof\<close> reads a fragment from a URL or from a local file. The file system and
  the network are the two functions of \<open>sources\<close>: a read is the content or \<open>None\<close>, a
  fetch is the status code with the body (\<open>None\<close> when reading the body fails), or
  \<open>None\<close> when the request fails.
\<close>

record sources =
  ReadFile :: "string \<Rightarrow> string option"
  HttpGet :: "string \<Rightarrow> (int \<times> string option) option"

definition LoadKurof :: "sources \<Rightarrow> string \<Rightarrow> string option" where
  "LoadKurof w source =
     (if has_prefix source ''http://'' \<or> has_prefix source ''https://'' then
        (case HttpGet w source of
           None \<Rightarrow> None
         | Some (status, body) \<Rightarrow> if status \<noteq> 200 then None else body)
      else ReadFile w source)"

section \<open>The template runtime (package template, engine.go)\<close>

text \<open>
  The package \<^verbatim>\<open>text/template\<close> is a parameter. \<open>'ts\<close> is the state of a template
  set: \<open>New\<close> is \<^verbatim>\<open>template.New("base").Funcs(FuncMap())\<close>, \<open>Parse t name raw\<close> is
  \<^verbatim>\<open>t.New(name).Parse(raw)\<close> and gives the set afterwards with the parse error, if any,
  and \<open>Execute t name data\<close> runs the template \<open>name\<close> of the set on \<open>data\<close> and gives the
  bytes written to the buffer with the execution error, if any. A runtime keeps one set for
  all its renders, so every \<^verbatim>\<open>Render\<close> returns the runtime it leaves behind. The
  fragments of the registry are parsed in the order of the association list; Go ranges over
  the map in no fixed order.
\<close>

record 'ts template_lib =
  New :: "'ts"
  Parse :: "'ts \<Rightarrow> string \<Rightarrow> string \<Rightarrow> 'ts \<times> go_error option"
  Execute :: "'ts \<Rightarrow> string \<Rightarrow> gmap \<Rightarrow> string \<times> go_error option"

record 'ts Runtime =
  templates :: "'ts"
  "context" :: gmap

fun parse_extensions ::
  "'ts template_lib \<Rightarrow> 'ts \<Rightarrow> (string \<times> Extension) list \<Rightarrow> go_error + 'ts" where
  "parse_extensions eng t [] = Inr t"
| "parse_extensions eng t (kv # rest) =
     (case Parse eng t (Name (snd kv)) (Extension.Content (snd kv)) of
        (t', Some err) \<Rightarrow> Inl err
      | (t', None) \<Rightarrow> parse_extensions eng t' rest)"

definition NewRuntime :: "'ts template_lib \<Rightarrow> gmap \<Rightarrow> Registry \<Rightarrow> go_error + 'ts Runtime" where
  "NewRuntime eng ctx registry =
     (case parse_extensions eng (New eng) registry of
        Inl err \<Rightarrow> Inl err
      | Inr t \<Rightarrow> Inr \<lparr>templates = t, context = ctx\<rparr>)"

definition Render ::
  "'ts template_lib \<Rightarrow> 'ts Runtime \<Rightarrow> string \<Rightarrow> string \<Rightarrow> (string \<times> go_error option) \<times> 'ts Runtime" where
  "Render eng r name raw =
     (case Parse eng (templates r) name raw of
        (t', Some err) \<Rightarrow> (([], Some err), r\<lparr>templates := t'\<rparr>)
      | (t', None) \<Rightarrow> (Execute eng t' name (context r), r\<lparr>templates := t'\<rparr>))"

section \<open>The message pipeline (package runtime)\<close>

text \<open>
  A panic is a value. \<^verbatim>\<open>regexp.MustCompile\<close> panics where \<^verbatim>\<open>regexp.Compile\<close> returns
  an error; reading a field through a nil pointer panics; the HTTP server panics in
  \<^verbatim>\<open>WriteHeader\<close> on a status code outside 100 to 999, and its multiplexer panics on an
  empty pattern and on a pattern registered twice.
\<close>

datatype panic =
    MustCompilePanic string
  | NilPointerDereference
  | InvalidWriteHeaderCode int
  | InvalidPattern
  | MultipleRegistrations string

datatype outcome = Returned | Panicked panic

fun bind_groups :: "string list \<Rightarrow> (nat \<times> string) list \<Rightarrow> gmap \<Rightarrow> gmap" where
  "bind_groups match [] result = result"
| "bind_groups match (iname # rest) result =
     bind_groups match rest
       (if fst iname \<noteq> 0 \<and> snd iname \<noteq> [] \<and> fst iname < length match
        then AList.update (snd iname) (VStr (match ! fst iname)) result
        else result)"

definition extractVars :: "'re regexp_lib \<Rightarrow> string \<Rightarrow> string \<Rightarrow> panic + gmap" where
  "extractVars lib input pattern =
     (if pattern = [] then Inr [(''msg'', VStr input)]
      else case Compile lib pattern of
        None \<Rightarrow> Inl (MustCompilePanic pattern)
      | Some re \<Rightarrow>
          (let match = FindStringSubmatch lib re input;
               names = SubexpNames lib re
           in Inr (bind_groups match (zip [0 ..< length names] names) [])))"

fun load_into :: "sources \<Rightarrow> string list \<Rightarrow> Registry \<Rightarrow> Registry" where
  "load_into w [] registry = registry"
| "load_into w (src # rest) registry =
     (case LoadKurof w src of
        None \<Rightarrow> load_into w rest registry
      | Some code \<Rightarrow> load_into w rest (Register src code src registry))"

definition loadExtensions :: "sources \<Rightarrow> string list \<Rightarrow> Registry" where
  "loadExtensions w imports = load_into w imports NewRegistry"

text \<open>
  What a handler does to its connection and the three log entries of the rule loop are
  events, in the order in which they happen. The other logger calls are left out.
\<close>

datatype log_entry =
    EvaluatedCondition nat string string
  | SendingMatched string
  | SendingFallback string

datatype event = Logged log_entry | Write string | Close

definition ensure_newline :: "string \<Rightarrow> string" where
  "ensure_newline resp =
     (if length resp > 0 \<and> resp ! (length resp - 1) \<noteq> newline then resp @ [newline] else resp)"

definition cond_name :: "nat \<Rightarrow> string" where
  "cond_name i = ''cond_'' @ strconv_Itoa (int i)"

definition resp_name :: "nat \<Rightarrow> string" where
  "resp_name i = ''resp_'' @ strconv_Itoa (int i)"

text \<open>
  The context of one message in both handlers:
  \<^verbatim>\<open>template.MergeContext(matches, nil, def.Context.Variables)\<close>.
\<close>

definition message_context :: "gmap \<Rightarrow> Context \<Rightarrow> gmap" where
  "message_context matches c = MergeContext (Some matches) None (Variables c)"

subsection \<open>TCP (tcp.go)\<close>

text \<open>
  The loop over the conditions, from index \<open>i\<close>: the events, the runtime left behind, and
  whether the loop returned from the handler after a matched response.
\<close>

fun tcp_conditions ::
  "'ts template_lib \<Rightarrow> 'ts Runtime \<Rightarrow> nat \<Rightarrow> OnMessageRule list \<Rightarrow> event list \<times> 'ts Runtime \<times> bool" where
  "tcp_conditions eng tpl i [] = ([], tpl, False)"
| "tcp_conditions eng tpl i (cond # rest) =
     (case Render eng tpl (cond_name i) (IfExpr cond) of
        ((result, _), tpl1) \<Rightarrow>
          if result = ''true'' then
            (case Render eng tpl1 (resp_name i) (Respond cond) of
               ((resp, _), tpl2) \<Rightarrow>
                 ([Logged (EvaluatedCondition i (IfExpr cond) result),
                   Logged (SendingMatched resp),
                   Write (ensure_newline (ensure_newline resp))], tpl2, True))
          else
            (case tcp_conditions eng tpl1 (Suc i) rest of
               (evs, tpl', returned) \<Rightarrow>
                 (Logged (EvaluatedCondition i (IfExpr cond) result) # evs, tpl', returned)))"

definition tcp_respond :: "'ts template_lib \<Rightarrow> 'ts Runtime \<Rightarrow> OnMessage \<Rightarrow> event list" where
  "tcp_respond eng tpl om =
     (case tcp_conditions eng tpl 0 (Conditions om) of
        (evs, tpl', returned) \<Rightarrow>
          if returned then evs
          else if Else om \<noteq> [] then
            (case Render eng tpl' ''else'' (Else om) of
               ((resp, _), _) \<Rightarrow>
                 evs @ [Logged (SendingFallback resp), Write (ensure_newline (ensure_newline resp))])
          else evs)"

datatype read_result = ReadBytes string | ReadError

text \<open>
  One accepted connection. The handler runs as a goroutine of its own with no
  \<^verbatim>\<open>recover\<close>: the outcome \<open>Panicked\<close> is a panic that leaves the goroutine, after the
  deferred \<^verbatim>\<open>Close\<close> calls, and ends the process.
\<close>

definition handleConnection ::
  "'re regexp_lib \<Rightarrow> 'ts template_lib \<Rightarrow> sources \<Rightarrow> MockDefinition option \<Rightarrow> read_result
     \<Rightarrow> event list \<times> outcome" where
  "handleConnection lib eng w def rd =
     (case def of
        None \<Rightarrow> ([Write (''error: def is nil'' @ [newline]), Close], Returned)
      | Some d \<Rightarrow>
     (case OnMessage d of
        None \<Rightarrow> ([Write (''error: OnMessage is nil'' @ [newline]), Close], Returned)
      | Some om \<Rightarrow>
     (case rd of
        ReadError \<Rightarrow> ([Close, Close], Returned)
      | ReadBytes bytes \<Rightarrow>
     (case extractVars lib (take 2048 bytes) (Match om) of
        Inl p \<Rightarrow> ([Close, Close], Panicked p)
      | Inr matches \<Rightarrow>
     (let registry = loadExtensions w (Import d) in
     (case Context d of
        None \<Rightarrow> ([Close, Close], Panicked NilPointerDereference)
      | Some c \<Rightarrow>
     (case NewRuntime eng (message_context matches c) registry of
        Inl err \<Rightarrow> ([Write ''error de template'', Close, Close], Returned)
      | Inr tpl \<Rightarrow> (tcp_respond eng tpl om @ [Close, Close], Returned))))))))"

subsection \<open>WebSocket (ws.go)\<close>

fun ws_conditions ::
  "'ts template_lib \<Rightarrow> 'ts Runtime \<Rightarrow> nat \<Rightarrow> OnMessageRule list \<Rightarrow> event list \<times> 'ts Runtime \<times> bool" where
  "ws_conditions eng tpl i [] = ([], tpl, False)"
| "ws_conditions eng tpl i (cond # rest) =
     (case Render eng tpl (cond_name i) (IfExpr cond) of
        ((result, _), tpl1) \<Rightarrow>
          if result = ''true'' then
            (case Render eng tpl1 (resp_name i) (Respond cond) of
               ((resp, _), tpl2) \<Rightarrow>
                 ([Logged (EvaluatedCondition i (IfExpr cond) result),
                   Logged (SendingMatched resp),
                   Write resp], tpl2, True))
          else
            (case ws_conditions eng tpl1 (Suc i) rest of
               (evs, tpl', sent) \<Rightarrow>
                 (Logged (EvaluatedCondition i (IfExpr cond) result) # evs, tpl', sent)))"

definition ws_respond :: "'ts template_lib \<Rightarrow> 'ts Runtime \<Rightarrow> OnMessage \<Rightarrow> event list" where
  "ws_respond eng tpl om =
     (case ws_conditions eng tpl 0 (Conditions om) of
        (evs, tpl', sent) \<Rightarrow>
          if \<not> sent \<and> Else om \<noteq> [] then
            (case Render eng tpl' ''else'' (Else om) of
               ((resp, _), _) \<Rightarrow> evs @ [Logged (SendingFallback resp), Write resp])
          else evs)"

text \<open>
  One message of a connection: the body of the read loop. \<open>Write\<close> is
  \<^verbatim>\<open>WriteMessage(websocket.TextMessage, _)\<close>; \<open>Returned\<close> is the end of the iteration.
\<close>

definition ws_message ::
  "'re regexp_lib \<Rightarrow> 'ts template_lib \<Rightarrow> Registry \<Rightarrow> MockDefinition \<Rightarrow> string \<Rightarrow> event list \<times> outcome" where
  "ws_message lib eng registry d raw =
     (case OnMessage d of
        None \<Rightarrow> ([], Panicked NilPointerDereference)
      | Some om \<Rightarrow>
     (case extractVars lib raw (Match om) of
        Inl p \<Rightarrow> ([], Panicked p)
      | Inr matches \<Rightarrow>
     (case Context d of
        None \<Rightarrow> ([], Panicked NilPointerDereference)
      | Some c \<Rightarrow>
     (case NewRuntime eng (message_context matches c) registry of
        Inl err \<Rightarrow> ([Write ''template error''], Returned)
      | Inr tpl \<Rightarrow> (ws_respond eng tpl om, Returned)))))"

text \<open>
  The read loop of one upgraded connection, on the messages the peer sends before it
  disconnects. A panic leaves the handler function after the deferred \<^verbatim>\<open>Close\<close>; the
  HTTP server that called the handler recovers it, so the later messages of the connection
  are never read.
\<close>

fun ws_connection ::
  "'re regexp_lib \<Rightarrow> 'ts template_lib \<Rightarrow> Registry \<Rightarrow> MockDefinition \<Rightarrow> string list \<Rightarrow> event list \<times> outcome" where
  "ws_connection lib eng registry d [] = ([Close], Returned)"
| "ws_connection lib eng registry d (raw # rest) =
     (case ws_message lib eng registry d raw of
        (evs, Panicked p) \<Rightarrow> (evs @ [Close], Panicked p)
      | (evs, Returned) \<Rightarrow>
          (case ws_connection lib eng registry d rest of
             (evs', out) \<Rightarrow> (evs @ evs', out)))"


section \<open>Accept loops\<close>

text \<open>
  An accept loop is run on the results that \<^verbatim>\<open>Accept\<close> returns one after the other.
  \<open>Waiting\<close>: the results are used up and the loop is blocked in \<^verbatim>\<open>Accept\<close>;
  \<open>Exited\<close>: the loop has returned. \<open>OpError m\<close> is a \<^verbatim>\<open>*net.OpError\<close> whose inner
  error prints as \<open>m\<close>.
\<close>

datatype net_error = OpError string | OtherError string

datatype accept_result = Conn nat | AcceptError net_error

datatype accept_event = Handle nat | LogInfo string | LogError string

datatype loop_state = Waiting | Exited

definition is_closed_listener :: "net_error \<Rightarrow> bool" where
  "is_closed_listener err =
     (case err of
        OpError m \<Rightarrow> m = ''use of closed network connection''
      | OtherError m \<Rightarrow> False)"

fun tcp_accept_loop :: "accept_result list \<Rightarrow> accept_event list \<times> loop_state" where
  "tcp_accept_loop [] = ([], Waiting)"
| "tcp_accept_loop (Conn c # rest) =
     (case tcp_accept_loop rest of (evs, st) \<Rightarrow> (Handle c # evs, st))"
| "tcp_accept_loop (AcceptError err # rest) =
     (if is_closed_listener err then ([LogInfo ''TCP listener cerrado''], Exited)
      else (case tcp_accept_loop rest of
              (evs, st) \<Rightarrow> (LogError ''failed to accept TCP connection'' # evs, st)))"

fun acceptConnections :: "accept_result list \<Rightarrow> accept_event list \<times> loop_state" where
  "acceptConnections [] = ([], Waiting)"
| "acceptConnections (Conn c # rest) =
     (case acceptConnections rest of
        (evs, st) \<Rightarrow> (LogInfo ''Incoming TCP connection'' # Handle c # evs, st))"
| "acceptConnections (AcceptError err # rest) =
     ([LogError ''Failed to accept connection''], Exited)"

section \<open>Start\<close>

text \<open>
  The answer of the operating system to the bind is an argument. A \<open>start_result\<close> is
  the error that \<^verbatim>\<open>Start\<close> returns to its caller and what the background goroutine that
  \<^verbatim>\<open>Start\<close> launched comes to: \<open>ProcessExit\<close> is \<^verbatim>\<open>os.Exit\<close>, which the logger's
  \<^verbatim>\<open>Fatal\<close> calls after writing the entry. The TCP goroutine runs \<open>tcp_accept_loop\<close>;
  the WebSocket handler that \<^verbatim>\<open>Start\<close> registers is \<open>ws_connection\<close> on the registry
  loaded from the imports of the definition.
\<close>

datatype listen_result = Listening | ListenError go_error

datatype start_error =
    ListenFailed go_error
  | ServerFailed go_error
  | RuntimeFailed go_error
  | HostKeyLoadFailed
  | HostKeyParseFailed
  | RootDirFailed

datatype background = NotStarted | Serving | ProcessExit int

record start_result =
  Err :: "start_error option"
  Background :: background

definition TCPHandler_Start :: "listen_result \<Rightarrow> start_result" where
  "TCPHandler_Start ln =
     (case ln of
        ListenError err \<Rightarrow> \<lparr>Err = Some (ListenFailed err), Background = NotStarted\<rparr>
      | Listening \<Rightarrow> \<lparr>Err = None, Background = Serving\<rparr>)"

definition WSHandler_Start :: "listen_result \<Rightarrow> start_result" where
  "WSHandler_Start ln =
     \<lparr>Err = None,
      Background = (case ln of ListenError err \<Rightarrow> ProcessExit 1 | Listening \<Rightarrow> Serving)\<rparr>"

subsection \<open>HTTP (http.go)\<close>

text \<open>The context of the one runtime that resolves the route paths.\<close>

definition http_path_context :: "gmap \<Rightarrow> gmap" where
  "http_path_context contextVars = AList.update ''context'' (VMap contextVars) contextVars"

text \<open>The context of one request; \<open>inputVars\<close> is the decoded JSON body or nil.\<close>

definition http_request_context :: "MockDefinition \<Rightarrow> gmap option \<Rightarrow> gmap" where
  "http_request_context d inputVars =
     MergeContext inputVars None (case Context d of None \<Rightarrow> None | Some c \<Rightarrow> Variables c)"

text \<open>
  The handler registered for one path, on the routes grouped under it. A request is its
  method, its content type and what the JSON decoder makes of its body (\<open>None\<close> when
  decoding fails). A response is what the handler hands to the response writer: the headers
  set, the status code passed to \<^verbatim>\<open>WriteHeader\<close> and the bytes passed to \<^verbatim>\<open>Write\<close>.
  \<^verbatim>\<open>Header().Set\<close> stores a value under the canonical form of its key: when every byte
  of the key is a token byte, the first letter and every letter after a hyphen in upper
  case and the other letters in lower case; otherwise the key as it is. \<^verbatim>\<open>WriteHeader\<close>
  panics on a code below 100 or above 999. The headers of a route are rendered in the order
  of the association list.
\<close>

record request =
  ReqMethod :: string
  ContentType :: string
  JsonBody :: "gmap option"

record response =
  Code :: int
  Header :: "(string \<times> string) list"
  Payload :: string

definition strings_EqualFold :: "string \<Rightarrow> string \<Rightarrow> bool" where
  "strings_EqualFold a b = (strings_ToLower a = strings_ToLower b)"

definition token_bytes :: string where
  "token_bytes =
     lower_letters @ upper_letters @ ''0123456789'' @ ''!#$%&*+-.^_|~'' @ [CHR 0x27, CHR 0x60]"

fun canonical_from :: "bool \<Rightarrow> string \<Rightarrow> string" where
  "canonical_from upper [] = []"
| "canonical_from upper (c # cs) =
     (if upper then upper_byte c else lower_byte c) # canonical_from (c = CHR ''-'') cs"

definition textproto_CanonicalMIMEHeaderKey :: "string \<Rightarrow> string" where
  "textproto_CanonicalMIMEHeaderKey k =
     (if list_all (\<lambda>c. c \<in> set token_bytes) k then canonical_from True k else k)"

definition Header_Set :: "string \<Rightarrow> string \<Rightarrow> (string \<times> string) list \<Rightarrow> (string \<times> string) list" where
  "Header_Set k v h = AList.update (textproto_CanonicalMIMEHeaderKey k) v h"

definition WriteHeader_and_Write :: "int \<Rightarrow> (string \<times> string) list \<Rightarrow> string \<Rightarrow> panic + response" where
  "WriteHeader_and_Write code h body =
     (if code < 100 \<or> code > 999 then Inl (InvalidWriteHeaderCode code)
      else Inr \<lparr>Code = code, Header = h, Payload = body\<rparr>)"

definition http_Error :: "(string \<times> string) list \<Rightarrow> string \<Rightarrow> int \<Rightarrow> panic + response" where
  "http_Error h msg code =
     WriteHeader_and_Write code
       (Header_Set ''X-Content-Type-Options'' ''nosniff''
          (Header_Set ''Content-Type'' ''text/plain; charset=utf-8'' h))
       (msg @ [newline])"

fun find_route :: "Route list \<Rightarrow> string \<Rightarrow> Route option" where
  "find_route [] m = None"
| "find_route (rt # rest) m =
     (if strings_EqualFold (Method rt) m \<or> Method rt = [] then Some rt else find_route rest m)"

definition http_input_vars :: "request \<Rightarrow> gmap option" where
  "http_input_vars r =
     (if ReqMethod r = ''POST'' \<or> ReqMethod r = ''PUT'' \<or> ReqMethod r = ''PATCH'' then
        (if ContentType r \<noteq> [] \<and> has_prefix (strings_ToLower (ContentType r)) ''application/json''
         then JsonBody r else None)
      else None)"

fun render_headers ::
  "'ts template_lib \<Rightarrow> 'ts Runtime \<Rightarrow> (string \<times> string) list \<Rightarrow> (string \<times> string) list
     \<Rightarrow> (string \<times> string) list \<times> 'ts Runtime" where
  "render_headers eng tpl [] h = (h, tpl)"
| "render_headers eng tpl (kv # rest) h =
     (case Render eng tpl ''hdr'' (snd kv) of
        ((hdr, None), tpl') \<Rightarrow> render_headers eng tpl' rest (Header_Set (fst kv) hdr h)
      | ((hdr, Some err), tpl') \<Rightarrow> render_headers eng tpl' rest (Header_Set (fst kv) (snd kv) h))"

definition http_route_handler ::
  "'ts template_lib \<Rightarrow> Registry \<Rightarrow> MockDefinition \<Rightarrow> Route list \<Rightarrow> request
     \<Rightarrow> panic + response" where
  \<open>http_route_handler eng registry d routesCopy r =
     (case find_route routesCopy (ReqMethod r) of
        None \<Rightarrow> http_Error [] ''Method not allowed'' 405
      | Some routeCopy \<Rightarrow>
          (case NewRuntime eng (http_request_context d (http_input_vars r)) registry of
             Inl err \<Rightarrow> http_Error [] ''Internal server error'' 500
           | Inr tpl \<Rightarrow>
               (case render_headers eng tpl (Headers (Response routeCopy)) [] of
                  (h, tpl1) \<Rightarrow>
                    (case Render eng tpl1 ''body'' (Body (Response routeCopy)) of
                       ((body, None), tpl2) \<Rightarrow>
                         WriteHeader_and_Write (Status (Response routeCopy)) h body
                     | ((body, Some err), tpl2) \<Rightarrow>
                         WriteHeader_and_Write (Status (Response routeCopy))
                           (Header_Set ''Content-Type'' ''application/json'' h)
                           ''{"error": "template rendering failed"}''))))\<close>

definition append_route :: "string \<Rightarrow> Route \<Rightarrow> (string \<times> Route list) list \<Rightarrow> (string \<times> Route list) list" where
  "append_route path route routeHandlers =
     AList.update path ((case map_of routeHandlers path of None \<Rightarrow> [] | Some rs \<Rightarrow> rs) @ [route])
       routeHandlers"

fun group_routes ::
  "'ts template_lib \<Rightarrow> 'ts Runtime \<Rightarrow> Route list \<Rightarrow> (string \<times> Route list) list
     \<Rightarrow> (string \<times> Route list) list" where
  "group_routes eng initialTpl [] routeHandlers = routeHandlers"
| "group_routes eng initialTpl (route # rest) routeHandlers =
     (if strings_Contains (Route.Path route) ''{{'' then
        (case Render eng initialTpl ''route-path'' (Route.Path route) of
           ((processedPath, None), tpl') \<Rightarrow>
             group_routes eng tpl' rest (append_route processedPath route routeHandlers)
         | ((processedPath, Some err), tpl') \<Rightarrow>
             group_routes eng tpl' rest (append_route (Route.Path route) route routeHandlers))
      else group_routes eng initialTpl rest (append_route (Route.Path route) route routeHandlers))"

text \<open>
  \<^verbatim>\<open>Start\<close>: the registry, the runtime of the route paths, the grouping of the routes by
  resolved path, the registration of the paths with the multiplexer and the outcome of the
  bind. The default health endpoints are registered first unless a route has one of their
  paths as written; \<^verbatim>\<open>HandleFunc\<close> panics on an empty path and on a path that is already
  registered. The paths are registered in the order of the association list.
  \<open>in_window\<close>: the error of the background \<^verbatim>\<open>ListenAndServe\<close> reaches the channel
  before the 100 ms timer fires.
\<close>

definition hasCustomHealth :: "Route list \<Rightarrow> bool" where
  "hasCustomHealth routes =
     list_ex (\<lambda>route. Route.Path route = ''/health'' \<or> Route.Path route = ''/healthz'') routes"

fun HandleFunc_all :: "string list \<Rightarrow> string list \<Rightarrow> panic option" where
  "HandleFunc_all registered [] = None"
| "HandleFunc_all registered (path # rest) =
     (if path = [] then Some InvalidPattern
      else if path \<in> set registered then Some (MultipleRegistrations path)
      else HandleFunc_all (path # registered) rest)"

definition HTTPHandler_Start ::
  "'ts template_lib \<Rightarrow> sources \<Rightarrow> listen_result \<Rightarrow> bool \<Rightarrow> MockDefinition
     \<Rightarrow> panic + start_result \<times> (string \<times> Route list) list" where
  "HTTPHandler_Start eng w ln in_window d =
     (let registry = loadExtensions w (Import d);
          health = (if hasCustomHealth (Routes d) then [] else [''/healthz'', ''/health''])
      in
      case Context d of
        None \<Rightarrow> Inl NilPointerDereference
      | Some c \<Rightarrow>
          (case NewRuntime eng (http_path_context (or_empty (Variables c))) registry of
             Inl err \<Rightarrow> Inr (\<lparr>Err = Some (RuntimeFailed err), Background = NotStarted\<rparr>, [])
           | Inr initialTpl \<Rightarrow>
               (let routeHandlers = group_routes eng initialTpl (Routes d) [] in
                case HandleFunc_all health (map fst routeHandlers) of
                  Some p \<Rightarrow> Inl p
                | None \<Rightarrow>
                    (case ln of
                       Listening \<Rightarrow> Inr (\<lparr>Err = None, Background = Serving\<rparr>, routeHandlers)
                     | ListenError err \<Rightarrow>
                         if in_window
                         then Inr (\<lparr>Err = Some (ServerFailed err), Background = NotStarted\<rparr>,
                                   routeHandlers)
                         else Inr (\<lparr>Err = None, Background = NotStarted\<rparr>, routeHandlers)))))"

section \<open>SFTP (sftp.go)\<close>

text \<open>
  \<^verbatim>\<open>path/filepath\<close> on slash-separated paths: \<^verbatim>\<open>Clean\<close> drops empty and \<open>.\<close>
  elements, resolves \<open>..\<close> against the element before it and drops \<open>..\<close> at the root;
  \<^verbatim>\<open>Join\<close> cleans the elements joined by slashes from the first non-empty one on;
  \<^verbatim>\<open>Dir\<close> cleans the path up to its last slash.
\<close>

fun clean_elements :: "bool \<Rightarrow> string list \<Rightarrow> string list \<Rightarrow> string list" where
  "clean_elements rooted stack [] = rev stack"
| "clean_elements rooted stack (e # es) =
     (if e = [] \<or> e = ''.'' then clean_elements rooted stack es
      else if e = ''..'' then
        (case stack of
           [] \<Rightarrow> clean_elements rooted (if rooted then [] else [''..'']) es
         | el # below \<Rightarrow>
             if el = ''..'' then clean_elements rooted (''..'' # stack) es
             else clean_elements rooted below es)
      else clean_elements rooted (e # stack) es)"

definition filepath_Clean :: "string \<Rightarrow> string" where
  "filepath_Clean path =
     (if path = [] then ''.''
      else
        (let rooted = (hd path = CHR ''/'');
             out = (if rooted then ''/'' else []) @
                   strings_Join (clean_elements rooted [] (strings_Split path ''/'')) ''/''
         in if out = [] then ''.'' else out))"

fun filepath_Join :: "string list \<Rightarrow> string" where
  "filepath_Join [] = []"
| "filepath_Join (e # es) =
     (if e = [] then filepath_Join es else filepath_Clean (strings_Join (e # es) ''/''))"

definition filepath_Dir :: "string \<Rightarrow> string" where
  "filepath_Dir path = filepath_Clean (rev (dropWhile (\<lambda>c. c \<noteq> CHR ''/'') (rev path)))"

text \<open>
  The disk: the directories that exist besides the working directory and the root, and
  the content of every file, by cleaned path. \<^verbatim>\<open>os.MkdirAll\<close> creates the missing
  directories down the path and fails at a file in its way; \<^verbatim>\<open>os.WriteFile\<close> fails on a
  directory and in a directory that does not exist. Each gives its success with the disk
  afterwards.
\<close>

record filesystem =
  Dirs :: "string list"
  FileData :: "(string \<times> string) list"

definition is_dir :: "filesystem \<Rightarrow> string \<Rightarrow> bool" where
  "is_dir fs p = (p = ''.'' \<or> p = ''/'' \<or> p \<in> set (Dirs fs))"

definition is_file :: "filesystem \<Rightarrow> string \<Rightarrow> bool" where
  "is_file fs p = (map_of (FileData fs) p \<noteq> None)"

definition path_prefixes :: "string \<Rightarrow> string list" where
  "path_prefixes p =
     (let c = filepath_Clean p;
          elems = filter (\<lambda>e. e \<noteq> []) (strings_Split c ''/'')
      in map (\<lambda>k. (if hd c = CHR ''/'' then ''/'' else []) @ strings_Join (take k elems) ''/'')
           [1 ..< Suc (length elems)])"

fun mkdir_chain :: "string list \<Rightarrow> filesystem \<Rightarrow> bool \<times> filesystem" where
  "mkdir_chain [] fs = (True, fs)"
| "mkdir_chain (q # qs) fs =
     (if is_file fs q then (False, fs)
      else mkdir_chain qs (if is_dir fs q then fs else fs\<lparr>Dirs := q # Dirs fs\<rparr>))"

definition os_MkdirAll :: "string \<Rightarrow> filesystem \<Rightarrow> bool \<times> filesystem" where
  "os_MkdirAll p fs = mkdir_chain (path_prefixes p) fs"

definition os_WriteFile :: "string \<Rightarrow> string \<Rightarrow> filesystem \<Rightarrow> bool \<times> filesystem" where
  "os_WriteFile p data fs =
     (if is_dir fs p \<or> \<not> is_dir fs (filepath_Dir p) then (False, fs)
      else (True, fs\<lparr>FileData := AList.update p data (FileData fs)\<rparr>))"

datatype listener = Listener int

record SFTPHandler =
  port :: int
  root :: string
  listener :: "listener option"

definition NewSFTPHandler :: SFTPHandler where
  "NewSFTPHandler = \<lparr>port = 0, root = [], listener = None\<rparr>"

text \<open>
  The loop over \<^verbatim>\<open>def.Files\<close>: a failure of either call is logged as a warning and the
  loop goes on.
\<close>

fun write_files :: "string \<Rightarrow> FileEntry list \<Rightarrow> filesystem \<Rightarrow> filesystem" where
  "write_files rt [] fs = fs"
| "write_files rt (f # rest) fs =
     (let fullPath = filepath_Join [rt, FileEntry.Path f];
          fs1 = snd (os_MkdirAll (filepath_Dir fullPath) fs);
          fs2 = snd (os_WriteFile fullPath (FileEntry.Content f) fs1)
      in write_files rt rest fs2)"

text \<open>
  \<open>hostKey\<close> is the result of reading the host key file, \<open>parses\<close> that of
  \<^verbatim>\<open>ssh.ParsePrivateKey\<close> on it, \<open>ln\<close> that of the bind. The permissive authentication
  callbacks of the server configuration are not part of the model.
\<close>

definition SFTPHandler_Start ::
  "string option \<Rightarrow> bool \<Rightarrow> listen_result \<Rightarrow> SFTPHandler \<Rightarrow> filesystem \<Rightarrow> MockDefinition
     \<Rightarrow> start_result \<times> SFTPHandler \<times> filesystem" where
  "SFTPHandler_Start hostKey parses ln h fs d =
     (let h1 = h\<lparr>port := Port d, root := ''sftp_root''\<rparr> in
      case hostKey of
        None \<Rightarrow> (\<lparr>Err = Some HostKeyLoadFailed, Background = NotStarted\<rparr>, h1, fs)
      | Some privateBytes \<Rightarrow>
          if \<not> parses then (\<lparr>Err = Some HostKeyParseFailed, Background = NotStarted\<rparr>, h1, fs)
          else
            (case os_MkdirAll (root h1) fs of
               (False, fs1) \<Rightarrow> (\<lparr>Err = Some RootDirFailed, Background = NotStarted\<rparr>, h1, fs1)
             | (True, fs1) \<Rightarrow>
                 (let fs2 = write_files (root h1) (Files d) fs1 in
                  case ln of
                    ListenError err \<Rightarrow>
                      (\<lparr>Err = Some (ListenFailed err), Background = NotStarted\<rparr>, h1, fs2)
                  | Listening \<Rightarrow>
                      (\<lparr>Err = None, Background = Serving\<rparr>,
                       h1\<lparr>listener := Some (Listener (port h1))\<rparr>, fs2))))"

text \<open>
  \<^verbatim>\<open>Stop\<close> closes the listener when there is one. The disk is passed through: the
  function has no call that touches it.
\<close>

definition SFTPHandler_Stop :: "SFTPHandler \<Rightarrow> filesystem \<Rightarrow> listener list \<times> filesystem" where
  "SFTPHandler_Stop h fs =
     (case listener h of
        Some l \<Rightarrow> ([l], fs)
      | None \<Rightarrow> ([], fs))"

section \<open>Example definitions\<close>

definition empty_def :: MockDefinition where
  "empty_def =
     \<lparr>Protocol = [], Port = 0, Meta = \<lparr>Meta.Name = [], Description = []\<rparr>, Routes = [],
      OnMessage = None, Files = [], SFTPAuth = None, Session = None, Context = None,
      Functions = [], Import = []\<rparr>"

definition hola_route :: Route where
  "hola_route =
     \<lparr>Route.Path = ''/hola'', Method = ''GET'',
      Response = \<lparr>Status = 200, Headers = [], Body = ''hola''\<rparr>\<rparr>"

definition http_port_zero :: MockDefinition where
  "http_port_zero = empty_def\<lparr>Protocol := ''http'', Port := 0, Routes := [hola_route]\<rparr>"

definition sftp_no_password :: MockDefinition where
  "sftp_no_password =
     empty_def\<lparr>Protocol := ''sftp'', Port := 2222,
       Files := [\<lparr>FileEntry.Path = ''/welcome.txt'', Content = ''hi''\<rparr>],
       SFTPAuth := Some \<lparr>Username = ''u'', Password = [], PublicKeyPath = []\<rparr>\<rparr>"

subsection \<open>The libraries on the examples\<close>

text \<open>
  For the concrete examples the library parameters are instantiated. \<open>example_regexp\<close>
  stands for package \<^verbatim>\<open>regexp\<close> on two patterns: one named group that takes one or
  more characters other than a newline, and the lone open parenthesis, which is not a
  regular expression. \<open>example_templates\<close> stands for \<^verbatim>\<open>text/template\<close> on plain text
  and on the templates named below: a set is the bodies of its templates by name, the
  guard calls \<open>safeContains\<close> and the fragment calls \<open>safeUpper\<close> as the function map binds
  them. No theorem applies either to another pattern or template.
\<close>

definition cmd_pattern :: string where
  "cmd_pattern = ''(?P<cmd>.+)''"

definition any_plus :: "string \<Rightarrow> string list" where
  "any_plus s =
     (let m = takeWhile (\<lambda>c. c \<noteq> newline) (dropWhile (\<lambda>c. c = newline) s)
      in if m = [] then [] else [m, m])"

definition example_regexp :: "string regexp_lib" where
  "example_regexp =
     \<lparr>Compile = (\<lambda>p. if p = ''('' then None else Some p),
      FindStringSubmatch = (\<lambda>re s. if re = cmd_pattern then any_plus s else []),
      SubexpNames = (\<lambda>re. if re = cmd_pattern then [[], ''cmd''] else [[]])\<rparr>"

text \<open>
  Modelled from the spec: the file \<^verbatim>\<open>samples/toUpper_test.kurof\<close> that the tests import
  is not among the sources; the spec describes it as a fragment defining \<^verbatim>\<open>toUpper\<close> as
  upper-casing its argument.
\<close>

definition toUpper_kurof :: string where
  \<open>toUpper_kurof = ''{{ define "toUpper" }}{{ upper . }}{{ end }}''\<close>

definition upper_body :: string where
  "upper_body = ''{{ upper . }}''"

definition if_contains_ping :: string where
  \<open>if_contains_ping = ''{{ if contains .input.cmd "ping" }}true{{ else }}false{{ end }}''\<close>

definition respond_toUpper :: string where
  \<open>respond_toUpper = ''{{ template "toUpper" .input.cmd }}''\<close>

definition input_cmd :: "gmap \<Rightarrow> gval" where
  "input_cmd data =
     (case map_of data ''input'' of
        Some (VMap m) \<Rightarrow> (case map_of m ''cmd'' of Some v \<Rightarrow> v | None \<Rightarrow> VNil)
      | _ \<Rightarrow> VNil)"

definition example_Parse ::
  "(string \<times> string) list \<Rightarrow> string \<Rightarrow> string \<Rightarrow> (string \<times> string) list \<times> go_error option" where
  "example_Parse t name raw =
     (if raw = ''{{'' then (t, Some (Error ''unclosed action''))
      else if raw = toUpper_kurof then
        (AList.update ''toUpper'' upper_body (AList.update name [] t), None)
      else (AList.update name raw t, None))"

definition example_Execute ::
  "(string \<times> string) list \<Rightarrow> string \<Rightarrow> gmap \<Rightarrow> string \<times> go_error option" where
  "example_Execute t name data =
     (case map_of t name of
        None \<Rightarrow> ([], Some (Error ''incomplete or empty template''))
      | Some body \<Rightarrow>
          if body = if_contains_ping then
            (if safeContains (input_cmd data) (VStr ''ping'') then ''true'' else ''false'', None)
          else if body = respond_toUpper then
            (if map_of t ''toUpper'' = Some upper_body then (safeUpper (input_cmd data), None)
             else ([], Some (Error ''no such template toUpper'')))
          else (body, None))"

definition example_templates :: "(string \<times> string) list template_lib" where
  "example_templates = \<lparr>New = [], Parse = example_Parse, Execute = example_Execute\<rparr>"

definition example_sources :: sources where
  "example_sources =
     \<lparr>ReadFile = (\<lambda>p. if p = ''toUpper_test.kurof'' then Some toUpper_kurof else None),
      HttpGet = (\<lambda>u. None)\<rparr>"

text \<open>The definition of the test \<^verbatim>\<open>TestTCPWithExternalFunction\<close>.\<close>

definition tcp_ping_rules :: OnMessage where
  "tcp_ping_rules =
     \<lparr>Match = cmd_pattern,
      Conditions = [\<lparr>IfExpr = if_contains_ping, Respond = respond_toUpper\<rparr>],
      Else = ''NO MATCH''\<rparr>"

definition tcp_ping_def :: MockDefinition where
  "tcp_ping_def =
     empty_def\<lparr>Protocol := ''tcp'', Port := 9101, Import := [''toUpper_test.kurof''],
       Context := Some \<lparr>Variables = Some []\<rparr>, OnMessage := Some tcp_ping_rules\<rparr>"

text \<open>The same definition with a pattern that is not a regular expression.\<close>

definition tcp_bad_pattern_def :: MockDefinition where
  "tcp_bad_pattern_def = tcp_ping_def\<lparr>OnMessage := Some (tcp_ping_rules\<lparr>Match := ''(''\<rparr>)\<rparr>"

text \<open>The payloads written to the connection, in order.\<close>

fun writes :: "event list \<Rightarrow> string list" where
  "writes [] = []"
| "writes (Write payload # evs) = payload # writes evs"
| "writes (ev # evs) = writes evs"

subsection \<open>The rule set as the specification words it\<close>

text \<open>
  The conditions taken in declaration order on one runtime: \<open>cond_state k\<close> is the
  runtime after the guards of the conditions before the \<open>k\<close>-th were rendered, one after
  the other, \<open>cond_result k\<close> is what the guard of the \<open>k\<close>-th condition renders to then,
  and \<open>first_true\<close> is the first condition, if any, whose guard renders to \<open>true\<close>.
  \<open>guard_log ks\<close> is the log of the guards of the conditions \<open>ks\<close>.
\<close>

fun cond_state :: "'ts template_lib \<Rightarrow> 'ts Runtime \<Rightarrow> OnMessageRule list \<Rightarrow> nat \<Rightarrow> 'ts Runtime" where
  "cond_state eng tpl cs 0 = tpl"
| "cond_state eng tpl cs (Suc k) =
     snd (Render eng (cond_state eng tpl cs k) (cond_name k) (IfExpr (cs ! k)))"

definition cond_result :: "'ts template_lib \<Rightarrow> 'ts Runtime \<Rightarrow> OnMessageRule list \<Rightarrow> nat \<Rightarrow> string" where
  "cond_result eng tpl cs k =
     fst (fst (Render eng (cond_state eng tpl cs k) (cond_name k) (IfExpr (cs ! k))))"

definition first_true :: "'ts template_lib \<Rightarrow> 'ts Runtime \<Rightarrow> OnMessageRule list \<Rightarrow> nat option" where
  "first_true eng tpl cs = find (\<lambda>k. cond_result eng tpl cs k = ''true'') [0 ..< length cs]"

definition guard_log :: "'ts template_lib \<Rightarrow> 'ts Runtime \<Rightarrow> OnMessageRule list \<Rightarrow> nat list \<Rightarrow> event list" where
  "guard_log eng tpl cs ks =
     map (\<lambda>k. Logged (EvaluatedCondition k (IfExpr (cs ! k)) (cond_result eng tpl cs k))) ks"

definition respond_output :: "'ts template_lib \<Rightarrow> 'ts Runtime \<Rightarrow> OnMessageRule list \<Rightarrow> nat \<Rightarrow> string" where
  "respond_output eng tpl cs k =
     fst (fst (Render eng (cond_state eng tpl cs (Suc k)) (resp_name k) (Respond (cs ! k))))"

definition else_output :: "'ts template_lib \<Rightarrow> 'ts Runtime \<Rightarrow> OnMessage \<Rightarrow> string" where
  "else_output eng tpl om =
     fst (fst (Render eng (cond_state eng tpl (Conditions om) (length (Conditions om))) ''else'' (Else om)))"


subsection \<open>Dynamic types\<close>

text \<open>
  What the type assertions and \<^verbatim>\<open>reflect.Kind\<close> tests of the helpers ask of a value.
\<close>

definition is_string :: "gval \<Rightarrow> bool" where
  "is_string v = (case v of VStr s \<Rightarrow> True | _ \<Rightarrow> False)"

definition is_string_slice :: "gval \<Rightarrow> bool" where
  "is_string_slice v = (case v of VStrs xs \<Rightarrow> True | _ \<Rightarrow> False)"

definition has_length :: "gval \<Rightarrow> bool" where
  "has_length v =
     (case v of VStr s \<Rightarrow> True | VStrs xs \<Rightarrow> True | VList vs \<Rightarrow> True | VMap kvs \<Rightarrow> True
      | _ \<Rightarrow> False)"

subsection \<open>SFTP examples\<close>

text \<open>
  A disk on which an earlier run left a file, and two definitions: the one of the
  specification's scenario and one of another mock.
\<close>

definition used_disk :: filesystem where
  "used_disk = \<lparr>Dirs = [''sftp_root''], FileData = [(''sftp_root/old.txt'', ''left over'')]\<rparr>"

definition sftp_welcome_def :: MockDefinition where
  "sftp_welcome_def =
     empty_def\<lparr>Protocol := ''sftp'', Port := 2222,
       Files := [\<lparr>FileEntry.Path = ''/welcome.txt'', Content = ''hi''\<rparr>],
       SFTPAuth := Some \<lparr>Username = ''u'', Password = ''p'', PublicKeyPath = []\<rparr>\<rparr>"

definition sftp_other_def :: MockDefinition where
  "sftp_other_def =
     empty_def\<lparr>Protocol := ''sftp'', Port := 2223,
       Files := [\<lparr>FileEntry.Path = ''/data/other.txt'', Content = ''other''\<rparr>],
       SFTPAuth := Some \<lparr>Username = ''v'', Password = ''q'', PublicKeyPath = []\<rparr>\<rparr>"



subsection \<open>What the specification says of a handler\<close>


text \<open>
  The template library that refuses every execution on data other than \<open>P\<close> allows: a
  handler that behaves the same with it, whatever the library, never runs a template on
  data outside \<open>P\<close>.
\<close>

definition guarded :: "(gmap \<Rightarrow> bool) \<Rightarrow> 'ts template_lib \<Rightarrow> 'ts template_lib" where
  "guarded P eng =
     eng\<lparr>Execute :=
       (\<lambda>t name data. if P data then Execute eng t name data
                       else ([], Some (Error ''refused'')))\<rparr>"

subsection \<open>More examples\<close>










text \<open>
  A route with one header and a plain body, on a definition with one context variable,
  and a request for it.
\<close>

definition gatito_route :: Route where
  "gatito_route =
     \<lparr>Route.Path = ''/hola'', Method = ''GET'',
      Response = \<lparr>Status = 200, Headers = [(''content-type'', ''text/plain'')], Body = ''hola''\<rparr>\<rparr>"

definition gatito_def :: MockDefinition where
  "gatito_def =
     empty_def\<lparr>Protocol := ''http'', Port := 8080, Routes := [gatito_route],
       Context := Some \<lparr>Variables = Some [(''nombre'', VStr ''gatito'')]\<rparr>\<rparr>"

definition get_request :: request where
  "get_request = \<lparr>ReqMethod = ''GET'', ContentType = [], JsonBody = None\<rparr>"


text \<open>
  A context in which the three keys are bound to mappings, the session to the empty one.
\<close>

definition three_keys :: "gmap \<Rightarrow> bool" where
  "three_keys data =
     (case (map_of data ''input'', map_of data ''session'', map_of data ''context'') of
        (Some (VMap i), Some (VMap s), Some (VMap g)) \<Rightarrow> s = []
      | _ \<Rightarrow> False)"

section \<open>Properties\<close>

subsection \<open>Validation\<close>

text \<open>
  C1. \<^verbatim>\<open>Validate\<close> returns an error exactly when the fields its protocol requires are
  missing: no route for http; no \<^verbatim>\<open>onMessage\<close> for tcp and ws; no file, no
  \<^verbatim>\<open>sftpAuth\<close>, or an empty user name or password for sftp; and always for any other
  protocol.
\<close>

theorem Validate_error_iff:
  "(Validate d \<noteq> None) =
     (if Protocol d = ''http'' then Routes d = []
      else if Protocol d = ''tcp'' \<or> Protocol d = ''ws'' then OnMessage d = None
      else if Protocol d = ''sftp'' then
        (Files d = [] \<or>
         (case SFTPAuth d of None \<Rightarrow> True | Some a \<Rightarrow> Username a = [] \<or> Password a = []))
      else True)"
  unfolding Validate_def by (simp split: option.split)

theorem Validate_error_iff_witness:
  "Validate sftp_no_password \<noteq> None \<and> Validate http_port_zero = None"
  using Validate_error_iff [of sftp_no_password] Validate_error_iff [of http_port_zero]
  by (simp add: sftp_no_password_def http_port_zero_def empty_def_def)

text \<open>
  C6, as the code has it. \<^verbatim>\<open>Validate\<close> never reads the port: its result is the same
  for every port, so a definition that passes may carry any integer as its port.
\<close>

theorem Validate_ignores_Port: "Validate (d\<lparr>Port := p\<rparr>) = Validate d"
  unfolding Validate_def by simp

text \<open>
  C6 as stated fails: a definition with one route and port 0 passes \<^verbatim>\<open>Validate\<close>.
\<close>

theorem Validate_port_counterexample:
  "Validate http_port_zero = None \<and> \<not> (1 \<le> Port http_port_zero \<and> Port http_port_zero \<le> 65535)"
  by (simp add: Validate_def http_port_zero_def empty_def_def)


subsection \<open>The rule loop\<close>

lemma ensure_newline_idem: "ensure_newline (ensure_newline r) = ensure_newline r"
  by (simp add: ensure_newline_def nth_append)


lemma tcp_conditions_from:
  "i \<le> length cs \<Longrightarrow>
   tcp_conditions eng (cond_state eng tpl cs i) i (drop i cs) =
     (case find (\<lambda>k. cond_result eng tpl cs k = ''true'') [i ..< length cs] of
        Some k \<Rightarrow>
          (guard_log eng tpl cs [i ..< Suc k] @
             [Logged (SendingMatched (respond_output eng tpl cs k)),
              Write (ensure_newline (respond_output eng tpl cs k))],
           snd (Render eng (cond_state eng tpl cs (Suc k)) (resp_name k) (Respond (cs ! k))),
           True)
      | None \<Rightarrow> (guard_log eng tpl cs [i ..< length cs], cond_state eng tpl cs (length cs), False))"
proof (induction "length cs - i" arbitrary: i)
  case 0
  then show ?case by (simp add: guard_log_def)
next
  case (Suc n)
  then have lt: "i < length cs" by simp
  have d: "drop i cs = cs ! i # drop (Suc i) cs"
    using lt by (simp add: Cons_nth_drop_Suc)
  have u: "[i ..< length cs] = i # [Suc i ..< length cs]"
    using lt by (simp add: upt_conv_Cons)
  obtain result e tpl1 where
    r: "Render eng (cond_state eng tpl cs i) (cond_name i) (IfExpr (cs ! i)) = ((result, e), tpl1)"
    by (metis surj_pair)
  have res: "cond_result eng tpl cs i = result" and st: "cond_state eng tpl cs (Suc i) = tpl1"
    using r by (simp_all add: cond_result_def)
  show ?case
  proof (cases "result = ''true''")
    case True
    obtain resp e2 tpl2 where
      r2: "Render eng tpl1 (resp_name i) (Respond (cs ! i)) = ((resp, e2), tpl2)"
      by (metis surj_pair)
    show ?thesis
      unfolding d u using True r r2 res st
      by (simp add: guard_log_def respond_output_def ensure_newline_idem)
  next
    case False
    have ih: "tcp_conditions eng tpl1 (Suc i) (drop (Suc i) cs) =
     (case find (\<lambda>k. cond_result eng tpl cs k = ''true'') [Suc i ..< length cs] of
        Some k \<Rightarrow>
          (guard_log eng tpl cs [Suc i ..< Suc k] @
             [Logged (SendingMatched (respond_output eng tpl cs k)),
              Write (ensure_newline (respond_output eng tpl cs k))],
           snd (Render eng (cond_state eng tpl cs (Suc k)) (resp_name k) (Respond (cs ! k))),
           True)
      | None \<Rightarrow> (guard_log eng tpl cs [Suc i ..< length cs], cond_state eng tpl cs (length cs), False))"
      using Suc.hyps(1)[of "Suc i"] Suc.hyps(2) lt st by simp
    have ge: "\<And>k. find (\<lambda>k. cond_result eng tpl cs k = ''true'') [Suc i ..< length cs] = Some k \<Longrightarrow>
        [i ..< Suc k] = i # [Suc i ..< Suc k]"
    proof -
      fix k assume "find (\<lambda>k. cond_result eng tpl cs k = ''true'') [Suc i ..< length cs] = Some k"
      then have "k \<in> set [Suc i ..< length cs]"
        by (metis find_Some_iff nth_mem)
      then show "[i ..< Suc k] = i # [Suc i ..< Suc k]"
        by (simp add: upt_conv_Cons)
    qed
    show ?thesis
    proof (cases "find (\<lambda>k. cond_result eng tpl cs k = ''true'') [Suc i ..< length cs]")
      case None
      then show ?thesis
        unfolding d u using False r res ih by (simp add: guard_log_def)
    next
      case (Some k)
      then show ?thesis
        unfolding d u using False r res ih ge[OF Some]
        by (simp add: guard_log_def del: upt_Suc)
    qed
  qed
qed


lemma tcp_respond_trace:
  "tcp_respond eng tpl om =
     (case first_true eng tpl (Conditions om) of
        Some k \<Rightarrow>
          guard_log eng tpl (Conditions om) [0 ..< Suc k] @
            [Logged (SendingMatched (respond_output eng tpl (Conditions om) k)),
             Write (ensure_newline (respond_output eng tpl (Conditions om) k))]
      | None \<Rightarrow>
          guard_log eng tpl (Conditions om) [0 ..< length (Conditions om)] @
            (if Else om \<noteq> [] then
               [Logged (SendingFallback (else_output eng tpl om)),
                Write (ensure_newline (else_output eng tpl om))]
             else []))"
  using tcp_conditions_from [of 0 "Conditions om" eng tpl]
  by (simp add: tcp_respond_def first_true_def else_output_def ensure_newline_idem
        split: option.splits prod.splits del: upt_Suc)


lemma writes_append: "writes (xs @ ys) = writes xs @ writes ys"
  by (induction xs rule: writes.induct) simp_all

lemma writes_guard_log: "writes (guard_log eng tpl cs ks) = []"
  by (induction ks) (simp_all add: guard_log_def)

lemma ensure_newline_ends: "ensure_newline r = [] \<or> last (ensure_newline r) = newline"
  by (cases "r = []") (auto simp: ensure_newline_def last_conv_nth)

lemma tcp_payload_newline:
  "list_all (\<lambda>payload. payload = [] \<or> last payload = newline) (writes (tcp_respond eng tpl om))"
  using ensure_newline_ends [of "else_output eng tpl om"]
  by (auto simp: tcp_respond_trace writes_append writes_guard_log ensure_newline_ends
        split: option.split simp del: upt_Suc)







subsection \<open>Patterns that are not regular expressions\<close>

lemma extractVars_panics:
  "pattern \<noteq> [] \<Longrightarrow> Compile lib pattern = None \<Longrightarrow>
   extractVars lib input pattern = Inl (MustCompilePanic pattern)"
  by (simp add: extractVars_def)

lemma extractVars_empty_pattern: "extractVars lib input [] = Inr [(''msg'', VStr input)]"
  by (simp add: extractVars_def)

text \<open>
  C2 fails on the code. When the pattern of the rule set does not compile, the TCP
  handler of a connection that sent any message panics: the connection is closed by the
  deferred calls and nothing recovers the panic, which ends the process. The WebSocket
  handler panics at the first message, and the messages after it are never handled.
\<close>

theorem bad_pattern_panics:
  "OnMessage d = Some om \<Longrightarrow> Match om \<noteq> [] \<Longrightarrow> Compile lib (Match om) = None \<Longrightarrow>
   handleConnection lib eng w (Some d) (ReadBytes bytes) =
     ([Close, Close], Panicked (MustCompilePanic (Match om)))
   \<and> ws_connection lib eng registry d (raw # rest) =
     ([Close], Panicked (MustCompilePanic (Match om)))"
  by (simp add: handleConnection_def ws_message_def extractVars_panics)

theorem bad_pattern_panics_witness:
  "handleConnection example_regexp example_templates example_sources (Some tcp_bad_pattern_def)
     (ReadBytes ''ping test'') = ([Close, Close], Panicked (MustCompilePanic ''(''))
   \<and> ws_connection example_regexp example_templates [] tcp_bad_pattern_def [''ping'', ''ping''] =
     ([Close], Panicked (MustCompilePanic ''(''))"
  using bad_pattern_panics [of tcp_bad_pattern_def "tcp_ping_rules\<lparr>Match := ''(''\<rparr>" example_regexp
      example_templates example_sources "''ping test''" "[]" "''ping''" "[''ping'']"]
  by (simp add: tcp_bad_pattern_def_def tcp_ping_def_def empty_def_def example_regexp_def)

subsection \<open>Failure to bind\<close>

lemma TCPHandler_Start_bind_failure:
  "Err (TCPHandler_Start (ListenError err)) = Some (ListenFailed err)"
  by (simp add: TCPHandler_Start_def)

lemma SFTPHandler_Start_bind_failure:
  "Err (fst (SFTPHandler_Start hostKey parses (ListenError err) h fs d)) \<noteq> None"
  by (simp add: SFTPHandler_Start_def Let_def split: option.split prod.split bool.split)

lemma HTTPHandler_Start_bind_failure:
  "HTTPHandler_Start eng w (ListenError err) True d = Inr (res, table) \<Longrightarrow> Err res \<noteq> None"
  by (auto simp: HTTPHandler_Start_def Let_def split: option.splits sum.splits)

text \<open>
  C4 fails on the code for the WebSocket handler. When the port cannot be bound,
  \<^verbatim>\<open>Start\<close> returns nil and the goroutine it launched ends the process with exit code 1.
\<close>

theorem WSHandler_Start_bind_failure:
  "WSHandler_Start (ListenError err) = \<lparr>Err = None, Background = ProcessExit 1\<rparr>"
  by (simp add: WSHandler_Start_def)

subsection \<open>Accept errors\<close>

lemma tcp_accept_loop_closed:
  "tcp_accept_loop (AcceptError (OpError ''use of closed network connection'') # rest) =
     ([LogInfo ''TCP listener cerrado''], Exited)"
  by (simp add: is_closed_listener_def)

lemma tcp_accept_loop_continues:
  "\<not> is_closed_listener err \<Longrightarrow>
   tcp_accept_loop (AcceptError err # rest) =
     (LogError ''failed to accept TCP connection'' # fst (tcp_accept_loop rest),
      snd (tcp_accept_loop rest))"
  by (simp split: prod.split)

text \<open>
  C5 fails on the code for the SFTP handler. Its accept loop logs every \<^verbatim>\<open>Accept\<close>
  error as an error and returns, whatever the error is: the connections that would have
  been accepted after it are never handled.
\<close>

theorem acceptConnections_stops_at_any_error:
  "acceptConnections (AcceptError err # rest) = ([LogError ''Failed to accept connection''], Exited)"
  by simp


subsection \<open>Template contexts\<close>

lemma guarded_Parse: "Parse (guarded P eng) = Parse eng" and guarded_New: "New (guarded P eng) = New eng"
  by (simp_all add: guarded_def)

lemma guarded_Execute: "P data \<Longrightarrow> Execute (guarded P eng) t name data = Execute eng t name data"
  by (simp add: guarded_def)

lemma parse_extensions_guarded:
  "parse_extensions (guarded P eng) t registry = parse_extensions eng t registry"
  by (induction registry arbitrary: t) (simp_all add: guarded_Parse split: prod.split option.split)

lemma NewRuntime_guarded: "NewRuntime (guarded P eng) ctx registry = NewRuntime eng ctx registry"
  by (simp add: NewRuntime_def parse_extensions_guarded guarded_New)

lemma NewRuntime_Inr_context: "NewRuntime eng ctx registry = Inr tpl \<Longrightarrow> context tpl = ctx"
  by (auto simp: NewRuntime_def split: sum.splits)

lemma Render_guarded:
  "P (context r) \<Longrightarrow> Render (guarded P eng) r name raw = Render eng r name raw"
  by (simp add: Render_def guarded_Parse guarded_Execute split: prod.split option.split)

lemma Render_keeps: "Render eng r name raw = (out, r') \<Longrightarrow> context r' = context r"
  by (auto simp: Render_def split: prod.splits option.splits)

lemma tcp_conditions_guarded:
  "P (context tpl) \<Longrightarrow> tcp_conditions (guarded P eng) tpl i cs = tcp_conditions eng tpl i cs"
proof (induction cs arbitrary: tpl i)
  case Nil
  then show ?case by simp
next
  case (Cons cond rest)
  obtain result e tpl1 where r: "Render eng tpl (cond_name i) (IfExpr cond) = ((result, e), tpl1)"
    by (metis surj_pair)
  obtain resp e2 tpl2 where r2: "Render eng tpl1 (resp_name i) (Respond cond) = ((resp, e2), tpl2)"
    by (metis surj_pair)
  have c1: "P (context tpl1)"
    using Render_keeps [OF r] Cons.prems by simp
  show ?case
    using Cons.prems r r2 c1 Cons.IH [OF c1, of "Suc i"]
    by (simp add: Render_guarded)
qed

lemma tcp_conditions_keeps:
  "tcp_conditions eng tpl i cs = (evs, tpl', b) \<Longrightarrow> context tpl' = context tpl"
proof (induction cs arbitrary: tpl i evs tpl' b)
  case Nil
  then show ?case by simp
next
  case (Cons cond rest)
  obtain result e tpl1 where r: "Render eng tpl (cond_name i) (IfExpr cond) = ((result, e), tpl1)"
    by (metis surj_pair)
  obtain resp e2 tpl2 where r2: "Render eng tpl1 (resp_name i) (Respond cond) = ((resp, e2), tpl2)"
    by (metis surj_pair)
  obtain evs1 tpl3 b1 where t: "tcp_conditions eng tpl1 (Suc i) rest = (evs1, tpl3, b1)"
    by (metis surj_pair)
  show ?case
    using Cons.prems r r2 t Render_keeps [OF r] Render_keeps [OF r2] Cons.IH [OF t]
    by (auto split: if_splits)
qed

lemma tcp_respond_guarded:
  "P (context tpl) \<Longrightarrow> tcp_respond (guarded P eng) tpl om = tcp_respond eng tpl om"
proof -
  assume p: "P (context tpl)"
  obtain evs tpl' b where t: "tcp_conditions eng tpl 0 (Conditions om) = (evs, tpl', b)"
    by (metis surj_pair)
  have "P (context tpl')"
    using tcp_conditions_keeps [OF t] p by simp
  then show ?thesis
    using t p by (simp add: tcp_respond_def tcp_conditions_guarded Render_guarded)
qed

lemma ws_conditions_guarded:
  "P (context tpl) \<Longrightarrow> ws_conditions (guarded P eng) tpl i cs = ws_conditions eng tpl i cs"
proof (induction cs arbitrary: tpl i)
  case Nil
  then show ?case by simp
next
  case (Cons cond rest)
  obtain result e tpl1 where r: "Render eng tpl (cond_name i) (IfExpr cond) = ((result, e), tpl1)"
    by (metis surj_pair)
  obtain resp e2 tpl2 where r2: "Render eng tpl1 (resp_name i) (Respond cond) = ((resp, e2), tpl2)"
    by (metis surj_pair)
  have c1: "P (context tpl1)"
    using Render_keeps [OF r] Cons.prems by simp
  show ?case
    using Cons.prems r r2 c1 Cons.IH [OF c1, of "Suc i"]
    by (simp add: Render_guarded)
qed

lemma ws_conditions_keeps:
  "ws_conditions eng tpl i cs = (evs, tpl', b) \<Longrightarrow> context tpl' = context tpl"
proof (induction cs arbitrary: tpl i evs tpl' b)
  case Nil
  then show ?case by simp
next
  case (Cons cond rest)
  obtain result e tpl1 where r: "Render eng tpl (cond_name i) (IfExpr cond) = ((result, e), tpl1)"
    by (metis surj_pair)
  obtain resp e2 tpl2 where r2: "Render eng tpl1 (resp_name i) (Respond cond) = ((resp, e2), tpl2)"
    by (metis surj_pair)
  obtain evs1 tpl3 b1 where t: "ws_conditions eng tpl1 (Suc i) rest = (evs1, tpl3, b1)"
    by (metis surj_pair)
  show ?case
    using Cons.prems r r2 t Render_keeps [OF r] Render_keeps [OF r2] Cons.IH [OF t]
    by (auto split: if_splits)
qed

lemma ws_respond_guarded:
  "P (context tpl) \<Longrightarrow> ws_respond (guarded P eng) tpl om = ws_respond eng tpl om"
proof -
  assume p: "P (context tpl)"
  obtain evs tpl' b where t: "ws_conditions eng tpl 0 (Conditions om) = (evs, tpl', b)"
    by (metis surj_pair)
  have "P (context tpl')"
    using ws_conditions_keeps [OF t] p by simp
  then show ?thesis
    using t p by (simp add: ws_respond_def ws_conditions_guarded Render_guarded)
qed


lemma render_headers_guarded:
  "P (context tpl) \<Longrightarrow> render_headers (guarded P eng) tpl hs h = render_headers eng tpl hs h"
proof (induction hs arbitrary: tpl h)
  case Nil
  then show ?case by simp
next
  case (Cons kv rest)
  obtain hdr e tpl1 where r: "Render eng tpl ''hdr'' (snd kv) = ((hdr, e), tpl1)"
    by (metis surj_pair)
  have c1: "P (context tpl1)"
    using Render_keeps [OF r] Cons.prems by simp
  show ?case
    using Cons.prems r Cons.IH [OF c1]
    by (simp add: Render_guarded split: option.split)
qed

lemma render_headers_keeps:
  "render_headers eng tpl hs h = (h', tpl') \<Longrightarrow> context tpl' = context tpl"
proof (induction hs arbitrary: tpl h)
  case Nil
  then show ?case by simp
next
  case (Cons kv rest)
  obtain hdr e tpl1 where r: "Render eng tpl ''hdr'' (snd kv) = ((hdr, e), tpl1)"
    by (metis surj_pair)
  show ?case
    using Cons.prems r Render_keeps [OF r] Cons.IH [of tpl1]
    by (auto split: option.splits)
qed

lemma group_routes_guarded:
  "P (context tpl) \<Longrightarrow> group_routes (guarded P eng) tpl routes table = group_routes eng tpl routes table"
proof (induction routes arbitrary: tpl table)
  case Nil
  then show ?case by simp
next
  case (Cons route rest)
  obtain path e tpl1 where
    r: "Render eng tpl ''route-path'' (Route.Path route) = ((path, e), tpl1)"
    by (metis surj_pair)
  have c1: "P (context tpl1)"
    using Render_keeps [OF r] Cons.prems by simp
  show ?case
    using Cons.prems r Cons.IH [OF c1] Cons.IH [OF Cons.prems]
    by (simp add: Render_guarded split: option.split)
qed

lemma http_route_handler_guarded:
  "P (http_request_context d (http_input_vars r)) \<Longrightarrow>
   http_route_handler (guarded P eng) registry d routes r = http_route_handler eng registry d routes r"
proof -
  assume p: "P (http_request_context d (http_input_vars r))"
  show ?thesis
  proof (cases "find_route routes (ReqMethod r)")
    case None
    then show ?thesis by (simp add: http_route_handler_def)
  next
    case (Some rt)
    show ?thesis
    proof (cases "NewRuntime eng (http_request_context d (http_input_vars r)) registry")
      case (Inl err)
      then show ?thesis using Some by (simp add: http_route_handler_def NewRuntime_guarded)
    next
      case (Inr tpl)
      have c: "P (context tpl)"
        using NewRuntime_Inr_context [OF Inr] p by simp
      obtain h tpl1 where hs: "render_headers eng tpl (Headers (Response rt)) [] = (h, tpl1)"
        by (metis surj_pair)
      have c1: "P (context tpl1)"
        using render_headers_keeps [OF hs] c by simp
      show ?thesis
        using Some Inr hs c c1
        by (simp add: http_route_handler_def NewRuntime_guarded render_headers_guarded Render_guarded)
    qed
  qed
qed

lemma handleConnection_guarded:
  "(\<And>matches c. P (message_context matches c)) \<Longrightarrow>
   handleConnection lib (guarded P eng) w def rd = handleConnection lib eng w def rd"
  by (auto simp: handleConnection_def NewRuntime_guarded tcp_respond_guarded Let_def
        dest!: NewRuntime_Inr_context
        split: option.split read_result.split sum.split)


lemma three_keys_MergeContext: "three_keys (MergeContext i None g)"
  by (simp add: three_keys_def MergeContext_def or_empty_def)

lemma ws_message_guarded_exact:
  "OnMessage d = Some om \<Longrightarrow> Context d = Some c \<Longrightarrow> extractVars lib raw (Match om) = Inr matches \<Longrightarrow>
   P (message_context matches c) \<Longrightarrow>
   ws_message lib (guarded P eng) registry d raw = ws_message lib eng registry d raw"
  by (auto simp: ws_message_def NewRuntime_guarded ws_respond_guarded
        dest!: NewRuntime_Inr_context split: sum.split)

lemma handleConnection_guarded_exact:
  "OnMessage d = Some om \<Longrightarrow> Context d = Some c \<Longrightarrow>
   extractVars lib (take 2048 bytes) (Match om) = Inr matches \<Longrightarrow>
   P (message_context matches c) \<Longrightarrow>
   handleConnection lib (guarded P eng) w (Some d) (ReadBytes bytes) =
   handleConnection lib eng w (Some d) (ReadBytes bytes)"
  by (auto simp: handleConnection_def NewRuntime_guarded tcp_respond_guarded Let_def
        dest!: NewRuntime_Inr_context split: sum.split)

lemma ws_message_guarded:
  "(\<And>matches c. P (message_context matches c)) \<Longrightarrow>
   ws_message lib (guarded P eng) registry d raw = ws_message lib eng registry d raw"
  by (auto simp: ws_message_def NewRuntime_guarded ws_respond_guarded
        dest!: NewRuntime_Inr_context split: option.split sum.split)

lemma ws_connection_guarded:
  "(\<And>matches c. P (message_context matches c)) \<Longrightarrow>
   ws_connection lib (guarded P eng) registry d msgs = ws_connection lib eng registry d msgs"
  by (induction msgs) (simp_all add: ws_message_guarded)

lemma HTTPHandler_Start_guarded:
  assumes "Context d = Some c" and p: "P (http_path_context (or_empty (Variables c)))"
  shows "HTTPHandler_Start (guarded P eng) w ln in_window d = HTTPHandler_Start eng w ln in_window d"
proof (cases "NewRuntime eng (http_path_context (or_empty (Variables c))) (loadExtensions w (Import d))")
  case (Inl err)
  then show ?thesis
    using assms by (simp add: HTTPHandler_Start_def Let_def NewRuntime_guarded)
next
  case (Inr tpl)
  have "P (context tpl)"
    using NewRuntime_Inr_context [OF Inr] p by simp
  then show ?thesis
    using assms Inr
    by (simp add: HTTPHandler_Start_def Let_def NewRuntime_guarded group_routes_guarded)
qed

lemma map_of_MergeContext:
  "map_of (MergeContext input session global) k =
     (if k = ''input'' then Some (VMap (or_empty input))
      else if k = ''session'' then Some (VMap (or_empty session))
      else if k = ''context'' then Some (VMap (or_empty global))
      else None)"
  by (simp add: MergeContext_def)

lemma ping_test_trace:
  "handleConnection example_regexp example_templates example_sources (Some tcp_ping_def)
     (ReadBytes ''ping test'') =
     ([Logged (EvaluatedCondition 0 if_contains_ping ''true''),
       Logged (SendingMatched ''PING TEST''),
       Write (''PING TEST'' @ [newline]), Close, Close], Returned)"
  by code_simp

text \<open>
  C7, as the code has it. The engine \<open>guarded P eng\<close> refuses to execute a template on
  data that does not satisfy \<open>P\<close>; a handler that behaves the same with it as with
  \<open>eng\<close>, whatever \<open>eng\<close> is, executes templates on data that satisfies \<open>P\<close> only. So:
  every template that the handler of an HTTP request, the handler of a TCP connection and
  the handler of a WebSocket connection execute receives a context in which the three
  keys \<open>input\<close>, \<open>session\<close> and \<open>context\<close> are bound to mappings, the session to the
  empty one. More precisely it is the merged context of the request or message: the
  request data or the groups of the pattern as \<open>input\<close>, no session, and the variables
  of the definition as \<open>context\<close>, each of the three an empty mapping when there is no
  data for it. The templates of the route paths, which \<^verbatim>\<open>Start\<close> of the HTTP handler
  resolves, receive a context built differently: it binds \<open>context\<close> to the variables of
  the definition and every variable at the top level, and has no other key.
\<close>

theorem template_contexts:
  "http_route_handler (guarded three_keys eng) registry d routes r =
     http_route_handler eng registry d routes r
   \<and> handleConnection lib (guarded three_keys eng) w dopt rd = handleConnection lib eng w dopt rd
   \<and> ws_connection lib (guarded three_keys eng) registry d msgs = ws_connection lib eng registry d msgs
   \<and> http_route_handler
        (guarded (\<lambda>data. data = MergeContext (http_input_vars r) None
                                  (case Context d of None \<Rightarrow> None | Some c \<Rightarrow> Variables c)) eng)
        registry d routes r =
     http_route_handler eng registry d routes r
   \<and> (OnMessage d = Some om \<and> Context d = Some c
        \<and> extractVars lib (take 2048 bytes) (Match om) = Inr matches \<longrightarrow>
        handleConnection lib (guarded (\<lambda>data. data = MergeContext (Some matches) None (Variables c)) eng)
          w (Some d) (ReadBytes bytes) =
        handleConnection lib eng w (Some d) (ReadBytes bytes))
   \<and> (OnMessage d = Some om \<and> Context d = Some c \<and> extractVars lib raw (Match om) = Inr matches' \<longrightarrow>
        ws_message lib (guarded (\<lambda>data. data = MergeContext (Some matches') None (Variables c)) eng)
          registry d raw =
        ws_message lib eng registry d raw)
   \<and> map_of (MergeContext input session global) k =
       (if k = ''input'' then Some (VMap (case input of None \<Rightarrow> [] | Some m \<Rightarrow> m))
        else if k = ''session'' then Some (VMap (case session of None \<Rightarrow> [] | Some m \<Rightarrow> m))
        else if k = ''context'' then Some (VMap (case global of None \<Rightarrow> [] | Some m \<Rightarrow> m))
        else None)
   \<and> (Context d = Some c \<longrightarrow>
        HTTPHandler_Start (guarded (\<lambda>data. data = http_path_context (or_empty (Variables c))) eng)
          w ln in_window d =
        HTTPHandler_Start eng w ln in_window d)
   \<and> map_of (http_path_context contextVars) k =
       (if k = ''context'' then Some (VMap contextVars) else map_of contextVars k)"
proof -
  have keys: "\<And>matches c. three_keys (message_context matches c)"
    by (simp add: message_context_def three_keys_MergeContext)
  have h1: "http_route_handler (guarded three_keys eng) registry d routes r =
     http_route_handler eng registry d routes r"
    by (rule http_route_handler_guarded) (simp add: http_request_context_def three_keys_MergeContext)
  have h2: "handleConnection lib (guarded three_keys eng) w dopt rd = handleConnection lib eng w dopt rd"
    by (rule handleConnection_guarded) (rule keys)
  have h3: "ws_connection lib (guarded three_keys eng) registry d msgs = ws_connection lib eng registry d msgs"
    by (rule ws_connection_guarded) (rule keys)
  have h4: "http_route_handler
        (guarded (\<lambda>data. data = MergeContext (http_input_vars r) None
                                  (case Context d of None \<Rightarrow> None | Some c \<Rightarrow> Variables c)) eng)
        registry d routes r =
     http_route_handler eng registry d routes r"
    by (rule http_route_handler_guarded) (simp add: http_request_context_def)
  show ?thesis
    using h1 h2 h3 h4
      handleConnection_guarded_exact [of d om c lib bytes matches
        "\<lambda>data. data = MergeContext (Some matches) None (Variables c)" eng w]
      ws_message_guarded_exact [of d om c lib raw matches'
        "\<lambda>data. data = MergeContext (Some matches') None (Variables c)" eng registry]
      HTTPHandler_Start_guarded [of d c "\<lambda>data. data = http_path_context (or_empty (Variables c))"
        eng w ln in_window]
    by (simp add: message_context_def map_of_MergeContext or_empty_def http_path_context_def
          update_conv' split: option.split)
qed

theorem template_contexts_witness:
  "handleConnection example_regexp
     (guarded (\<lambda>data. data = MergeContext (Some [(''cmd'', VStr ''ping test'')]) None (Some []))
        example_templates)
     example_sources (Some tcp_ping_def) (ReadBytes ''ping test'') =
     ([Logged (EvaluatedCondition 0 if_contains_ping ''true''),
       Logged (SendingMatched ''PING TEST''),
       Write (''PING TEST'' @ [newline]), Close, Close], Returned)
   \<and> HTTPHandler_Start
       (guarded (\<lambda>data. data = http_path_context [(''nombre'', VStr ''gatito'')]) example_templates)
       example_sources Listening True gatito_def =
     Inr (\<lparr>Err = None, Background = Serving\<rparr>, [(''/hola'', [gatito_route])])
   \<and> http_route_handler (guarded three_keys example_templates) [] gatito_def [gatito_route] get_request =
     Inr \<lparr>Code = 200, Header = [(''Content-Type'', ''text/plain'')], Payload = ''hola''\<rparr>
   \<and> map_of (MergeContext None None None) ''input'' = Some (VMap [])"
proof -
  have reached: "OnMessage tcp_ping_def = Some tcp_ping_rules
      \<and> Context tcp_ping_def = Some \<lparr>Variables = Some []\<rparr>
      \<and> extractVars example_regexp (take 2048 ''ping test'') (Match tcp_ping_rules) =
          Inr [(''cmd'', VStr ''ping test'')]"
    by code_simp
  have has_context: "Context gatito_def = Some \<lparr>Variables = Some [(''nombre'', VStr ''gatito'')]\<rparr>"
    by code_simp
  have started: "HTTPHandler_Start example_templates example_sources Listening True gatito_def =
      Inr (\<lparr>Err = None, Background = Serving\<rparr>, [(''/hola'', [gatito_route])])"
    by code_simp
  have answered: "http_route_handler example_templates [] gatito_def [gatito_route] get_request =
      Inr \<lparr>Code = 200, Header = [(''Content-Type'', ''text/plain'')], Payload = ''hola''\<rparr>"
    by code_simp
  show ?thesis
    using template_contexts [where eng = example_templates and registry = "[]" and d = tcp_ping_def
        and routes = "[]" and r = get_request and lib = example_regexp and w = example_sources
        and dopt = "Some tcp_ping_def" and rd = "ReadBytes ''ping test''" and msgs = "[]"
        and om = tcp_ping_rules and c = "\<lparr>Variables = Some []\<rparr>" and bytes = "''ping test''"
        and matches = "[(''cmd'', VStr ''ping test'')]" and raw = "''ping test''"
        and matches' = "[(''cmd'', VStr ''ping test'')]" and input = None and session = None
        and global = None and k = "''input''" and ln = Listening and in_window = True
        and contextVars = "[]"]
      template_contexts [where eng = example_templates and registry = "[]" and d = gatito_def
        and routes = "[gatito_route]" and r = get_request and lib = example_regexp
        and w = example_sources and dopt = None and rd = ReadError and msgs = "[]"
        and om = tcp_ping_rules and c = "\<lparr>Variables = Some [(''nombre'', VStr ''gatito'')]\<rparr>"
        and bytes = "[]" and matches = "[]" and raw = "[]" and matches' = "[]" and input = None
        and session = None and global = None and k = "''input''" and ln = Listening
        and in_window = True and contextVars = "[]"]
      reached has_context started answered ping_test_trace
    by (simp add: or_empty_def)
qed

text \<open>
  C7 as stated fails: for a definition without variables the context of the route-path
  resolution has neither the key \<open>input\<close> nor the key \<open>session\<close>.
\<close>

theorem path_context_counterexample:
  "map_of (http_path_context (or_empty (Variables \<lparr>Variables = None\<rparr>))) ''input'' = None
   \<and> map_of (http_path_context (or_empty (Variables \<lparr>Variables = None\<rparr>))) ''session'' = None"
  by (simp add: http_path_context_def or_empty_def)

subsection \<open>The helpers on arguments of another type\<close>

lemma safeContains_mismatch: "\<not> (is_string s \<and> is_string substr) \<Longrightarrow> safeContains s substr = False"
  by (auto simp: safeContains_def is_string_def split: gval.splits)

lemma safeRegexMatch_mismatch: "\<not> (is_string pat \<and> is_string val) \<Longrightarrow> safeRegexMatch lib pat val = False"
  by (auto simp: safeRegexMatch_def is_string_def split: gval.splits)

lemma safeRegexMatch_bad_pattern: "Compile lib p = None \<Longrightarrow> safeRegexMatch lib (VStr p) (VStr v) = False"
  by (simp add: safeRegexMatch_def regexp_MatchString_def)

lemma safeLower_mismatch: "\<not> is_string v \<Longrightarrow> safeLower v = ''error: not a string''"
  by (auto simp: safeLower_def is_string_def split: gval.splits)

lemma safeTitle_mismatch: "\<not> is_string v \<Longrightarrow> safeTitle v = ''error: not a string''"
  by (auto simp: safeTitle_def is_string_def split: gval.splits)

lemma safeTrim_mismatch: "\<not> is_string v \<Longrightarrow> safeTrim v = ''error: not a string''"
  by (auto simp: safeTrim_def is_string_def split: gval.splits)

lemma safeSplit_mismatch: "\<not> (is_string str \<and> is_string sep) \<Longrightarrow> safeSplit str sep = []"
  by (auto simp: safeSplit_def is_string_def split: gval.splits)

lemma safeJoin_mismatch: "\<not> is_string_slice arr \<Longrightarrow> safeJoin arr sepStr = ''error: expected []string''"
  by (auto simp: safeJoin_def is_string_slice_def split: gval.splits)

lemma safeReplace_mismatch:
  "\<not> (is_string a \<and> is_string old \<and> is_string new) \<Longrightarrow> safeReplace a old new = ''error: invalid args''"
  by (auto simp: safeReplace_def is_string_def split: gval.splits)

lemma safeLen_mismatch: "\<not> has_length x \<Longrightarrow> safeLen x = 0"
  by (auto simp: safeLen_def has_length_def split: gval.splits)

text \<open>
  C8, as the code has it. On an argument of another type \<^verbatim>\<open>contains\<close> and
  \<^verbatim>\<open>regexMatch\<close> return false, \<^verbatim>\<open>split\<close> returns the empty list, \<^verbatim>\<open>len\<close> returns 0,
  and \<^verbatim>\<open>lower\<close>, \<^verbatim>\<open>title\<close>, \<^verbatim>\<open>trim\<close>, \<^verbatim>\<open>join\<close> and \<^verbatim>\<open>replace\<close> return an error
  string; \<^verbatim>\<open>default\<close> returns the default for nil. Only \<^verbatim>\<open>upper\<close> converts its argument
  to a string, with \<^verbatim>\<open>fmt.Sprint\<close>. All of them are total.
\<close>

theorem safe_helpers_on_mismatch:
  "(\<not> (is_string s \<and> is_string substr) \<longrightarrow> safeContains s substr = False)
   \<and> (\<not> (is_string pat \<and> is_string val) \<longrightarrow> safeRegexMatch lib pat val = False)
   \<and> safeUpper u = strings_ToUpper (fmt_Sprint u)
   \<and> (\<not> is_string v \<longrightarrow>
        safeLower v = ''error: not a string'' \<and> safeTitle v = ''error: not a string''
        \<and> safeTrim v = ''error: not a string'')
   \<and> (\<not> (is_string str \<and> is_string sep) \<longrightarrow> safeSplit str sep = [])
   \<and> (\<not> is_string_slice arr \<longrightarrow> safeJoin arr sepStr = ''error: expected []string'')
   \<and> (\<not> (is_string a \<and> is_string old \<and> is_string new) \<longrightarrow>
        safeReplace a old new = ''error: invalid args'')
   \<and> (\<not> has_length x \<longrightarrow> safeLen x = 0)
   \<and> safeDefault VNil dv = dv"
  using safeContains_mismatch [of s substr] safeRegexMatch_mismatch [of pat val lib]
    safeLower_mismatch [of v] safeTitle_mismatch [of v] safeTrim_mismatch [of v]
    safeSplit_mismatch [of str sep] safeJoin_mismatch [of arr sepStr]
    safeReplace_mismatch [of a old new] safeLen_mismatch [of x]
  by (simp add: safeUpper_def safeDefault_def)

theorem safe_helpers_on_mismatch_witness:
  "safeContains (VInt 123) (VStr ''2'') = False
   \<and> safeRegexMatch example_regexp (VStr ''(?P<cmd>.+)'') (VInt 7) = False
   \<and> safeUpper (VInt 42) = ''42''
   \<and> safeLower (VBool True) = ''error: not a string''
   \<and> safeSplit (VStr ''a,b'') VNil = []
   \<and> safeJoin (VList [VStr ''a'']) '','' = ''error: expected []string''
   \<and> safeReplace (VStr ''abc'') (VInt 1) (VStr ''x'') = ''error: invalid args''
   \<and> safeLen (VInt 5) = 0"
  using safe_helpers_on_mismatch [where s = "VInt 123" and substr = "VStr ''2''"
      and pat = "VStr ''(?P<cmd>.+)''" and val = "VInt 7" and lib = example_regexp
      and u = "VInt 42" and v = "VBool True" and str = "VStr ''a,b''" and sep = VNil
      and arr = "VList [VStr ''a'']" and sepStr = "'',''"
      and a = "VStr ''abc''" and old = "VInt 1" and new = "VStr ''x''" and x = "VInt 5"
      and dv = VNil]
  by (simp add: is_string_def is_string_slice_def has_length_def strings_ToUpper_def
        upper_byte_def lower_letters_def upper_letters_def strconv_Itoa_def nat_digits.simps)

text \<open>
  C8 as stated fails for \<^verbatim>\<open>contains\<close>: the number 123 printed as a string contains the
  digit 2, but \<^verbatim>\<open>contains\<close> answers false, as it does for every argument that is not a
  string.
\<close>

theorem safeContains_counterexample:
  "\<not> safeContains (VInt 123) (VStr ''2'')
   \<and> strings_Contains (fmt_Sprint (VInt 123)) (fmt_Sprint (VStr ''2''))"
  by (simp add: safeContains_def strconv_Itoa_def has_prefix_def nat_digits.simps)


subsection \<open>The scenario of the TCP test\<close>

text \<open>
  C9, as the code has it. On the definition of the test, the handler answers the message
  \<open>ping test\<close> with exactly these events: the guard is rendered to \<open>true\<close>, the
  response \<open>PING TEST\<close> is announced, one payload is written, the bytes \<open>PING TEST\<close>
  followed by a newline, and then the connection is closed, by the handler and again by
  its deferred call; the handler returns. Whatever the rule set and the templates, a
  payload that the TCP rule loop writes is empty or ends in a newline.
\<close>

theorem ping_test_response:
  "handleConnection example_regexp example_templates example_sources (Some tcp_ping_def)
     (ReadBytes ''ping test'') =
     ([Logged (EvaluatedCondition 0 if_contains_ping ''true''),
       Logged (SendingMatched ''PING TEST''),
       Write (''PING TEST'' @ [newline]), Close, Close], Returned)
   \<and> list_all (\<lambda>payload. payload = [] \<or> last payload = newline) (writes (tcp_respond eng tpl om))"
  by (simp add: ping_test_trace tcp_payload_newline)

text \<open>
  C9 as stated fails: what is written is not exactly \<open>PING TEST\<close>.
\<close>

theorem ping_test_counterexample:
  "writes (fst (handleConnection example_regexp example_templates example_sources
      (Some tcp_ping_def) (ReadBytes ''ping test''))) \<noteq> [''PING TEST'']"
  by (simp add: ping_test_trace)

subsection \<open>The SFTP directory\<close>


lemma mkdir_chain_Dirs: "set (Dirs fs) \<subseteq> set (Dirs (snd (mkdir_chain qs fs)))"
proof (induction qs arbitrary: fs)
  case Nil
  then show ?case by simp
next
  case (Cons q qs)
  have "set (Dirs fs) \<subseteq> set (Dirs (if is_dir fs q then fs else fs\<lparr>Dirs := q # Dirs fs\<rparr>))"
    by auto
  then show ?case
    using Cons [of "if is_dir fs q then fs else fs\<lparr>Dirs := q # Dirs fs\<rparr>"] by auto
qed


lemma os_WriteFile_Dirs: "Dirs (snd (os_WriteFile p data fs)) = Dirs fs"
  by (simp add: os_WriteFile_def)



lemma write_files_Dirs: "set (Dirs fs) \<subseteq> set (Dirs (write_files rt entries fs))"
proof (induction entries arbitrary: fs)
  case Nil
  then show ?case by simp
next
  case (Cons f entries)
  have "set (Dirs fs) \<subseteq> set (Dirs (snd (os_WriteFile (filepath_Join [rt, FileEntry.Path f]) (FileEntry.Content f)
          (snd (os_MkdirAll (filepath_Dir (filepath_Join [rt, FileEntry.Path f])) fs)))))"
    by (simp add: os_WriteFile_Dirs os_MkdirAll_def mkdir_chain_Dirs del: filepath_Join.simps)
  then show ?case
    using Cons.IH by (auto simp add: Let_def simp del: filepath_Join.simps)
qed



















lemma sftp_shared_tree:
  "FileData (snd (snd (SFTPHandler_Start (Some ''key'') True Listening NewSFTPHandler
      (snd (SFTPHandler_Stop
         (fst (snd (SFTPHandler_Start (Some ''key'') True Listening NewSFTPHandler used_disk sftp_welcome_def)))
         (snd (snd (SFTPHandler_Start (Some ''key'') True Listening NewSFTPHandler used_disk sftp_welcome_def)))))
      sftp_other_def))) =
   [(''sftp_root/old.txt'', ''left over''), (''sftp_root/welcome.txt'', ''hi''),
    (''sftp_root/data/other.txt'', ''other'')]"
  by code_simp


end
